theory Spec2Isabelle
  imports Main "HOL-Library.Word"
begin

unbundle bit_operations_syntax

section \<open>Values of the Windows back end (certstore\_windows.go)\<close>

text \<open>
  Native handles (\<open>HCERTSTORE\<close>, \<open>HCRYPTPROV\<close>, \<open>NCRYPT_KEY_HANDLE\<close>, \<open>HCRYPTHASH\<close>)
  and certificate context pointers (\<open>PCCERT_CONTEXT\<close>) are opaque to the Go code, which
  only compares them with \<open>nil\<close> or \<open>0\<close>. They are natural numbers here; \<open>0\<close> is the
  null handle.
\<close>

type_synonym byte = "8 word"
type_synonym DWORD = "32 word"
type_synonym handle = nat
type_synonym PCCERT_CONTEXT = nat

text \<open>
  A Go call either returns its results or panics (a nil pointer dereference, an index out
  of range, an explicit \<open>panic\<close>).
\<close>

datatype 'a outcome = Return 'a | Panic

text \<open>
  Go \<open>error\<close> values. \<open>New\<close> is \<open>errors.New\<close>, \<open>Wrap\<close> is \<open>errors.Wrap\<close> of
  github.com/pkg/errors on a non-nil error, \<open>errCode\<close> and \<open>securityStatus\<close> are the two
  numeric error types of the source, \<open>Foreign\<close> is an error made by a library outside the
  repository (crypto/x509, crypto11). A nil \<open>error\<close> is \<open>None\<close> of \<open>error option\<close>.
\<close>

datatype error =
    New string
  | errCode DWORD
  | securityStatus "32 word"
  | Wrap error string
  | Foreign string

text \<open>\<open>errors.Cause\<close>: follow the wrappers down to the first error that wraps nothing.\<close>

fun Cause :: "error \<Rightarrow> error" where
  "Cause (Wrap e m) = Cause e"
| "Cause (New m) = New m"
| "Cause (errCode c) = errCode c"
| "Cause (securityStatus c) = securityStatus c"
| "Cause (Foreign m) = Foreign m"

definition errors_Cause :: "error option \<Rightarrow> error option" where
  "errors_Cause e = map_option Cause e"

text \<open>\<open>cryptENotFound errCode = C.CRYPT_E_NOT_FOUND & (1<<32 - 1)\<close>, with winerror.h's
  \<open>CRYPT_E_NOT_FOUND = 0x80092004\<close>.\<close>

definition cryptENotFound :: DWORD where
  "cryptENotFound = 0x80092004 AND 0xFFFFFFFF"

section \<open>The native subsystem\<close>

text \<open>
  Every call into the Windows API is recorded, in order, in the \<open>trace\<close> of the world;
  the world also holds the thread's last-error code, which a failing call sets and
  \<open>GetLastError\<close> reads. Calls into the C allocator (\<open>C.CBytes\<close>, \<open>C.free\<close>,
  \<open>C.calloc\<close>) are not Windows API calls and are not recorded.
\<close>

datatype call =
    CertOpenStore
  | CertCloseStore handle
  | CertFindCertificateInStore handle PCCERT_CONTEXT
  | CertDuplicateCertificateContext PCCERT_CONTEXT
  | CertFreeCertificateContext PCCERT_CONTEXT
  | PFXImportCertStore
  | CertAddEncodedCertificateToStore handle PCCERT_CONTEXT
  | CryptFindCertificateKeyProvInfo PCCERT_CONTEXT
  | CryptAcquireCertificatePrivateKey PCCERT_CONTEXT
  | NCryptSignHash handle
  | NCryptFreeObject handle
  | CryptReleaseContext handle
  | CryptCreateHash handle
  | CryptGetHashParam handle
  | CryptSetHashParam handle
  | CryptSignHash handle
  | CryptDestroyHash handle
  | GetLastError

record world =
  trace :: "call list"
  last_error :: DWORD

definition called :: "call \<Rightarrow> world \<Rightarrow> world" where
  "called c w = w\<lparr>trace := trace w @ [c]\<rparr>"

definition failed :: "DWORD \<Rightarrow> world \<Rightarrow> world" where
  "failed code w = w\<lparr>last_error := code\<rparr>"

text \<open>Public keys as the source dispatches on them: \<open>*rsa.PublicKey\<close>,
  \<open>*ecdsa.PublicKey\<close>, anything else. A nil interface value is \<open>None\<close>.\<close>

datatype PublicKey = RSAPublicKey | ECDSAPublicKey | OtherPublicKey

text \<open>What the source reads of a parsed \<open>*x509.Certificate\<close>.\<close>

record x509_Certificate =
  PublicKey :: "PublicKey option"
  SubjectKeyId :: "byte list"

text \<open>The padding algorithm names \<open>BCRYPT_SHA1_ALGORITHM\<close> ... handed to CNG.\<close>

datatype pszAlgId =
  BCRYPT_SHA1_ALGORITHM | BCRYPT_SHA256_ALGORITHM | BCRYPT_SHA384_ALGORITHM | BCRYPT_SHA512_ALGORITHM

text \<open>
  How the operating system answers. The Go code cannot see inside the native calls, so
  their answers are parameters of the model, one field per call, each a function of the
  arguments the Go code passes:
  \<^item> a certificate collection \<open>h\<close> yields \<open>yields h\<close> certificate contexts to
    \<open>CertFindCertificateInStore\<close>, the \<open>k\<close>-th being the pointer \<open>k\<close> (counting from
    1), and then answers \<open>NULL\<close> with the last-error code \<open>stop_code h\<close>
    (\<open>CRYPT_E_NOT_FOUND\<close> at the regular end, any other code for a failure);
  \<^item> the other fields give the success flag or status, the values written through the
    out-parameters, and the last-error code set on failure.
\<close>

record native =
  r_CertOpenStore :: "handle \<times> DWORD"
  yields :: "handle \<Rightarrow> nat"
  stop_code :: "handle \<Rightarrow> DWORD"
  r_PFXImportCertStore :: "byte list \<Rightarrow> string \<Rightarrow> DWORD \<Rightarrow> handle \<times> DWORD"
  r_CertAddEncodedCertificateToStore :: "handle \<Rightarrow> PCCERT_CONTEXT \<Rightarrow> bool \<times> PCCERT_CONTEXT \<times> DWORD"
  pbCertEncoded :: "PCCERT_CONTEXT \<Rightarrow> byte list"
  x509_ParseCertificate :: "byte list \<Rightarrow> error + x509_Certificate"
  r_CryptFindCertificateKeyProvInfo :: "PCCERT_CONTEXT \<Rightarrow> bool \<times> DWORD"
  r_CryptAcquireCertificatePrivateKey :: "PCCERT_CONTEXT \<Rightarrow> DWORD \<Rightarrow> bool \<times> handle \<times> DWORD \<times> int \<times> DWORD"
  r_NCryptSignHash_len :: "handle \<Rightarrow> pszAlgId option \<Rightarrow> byte list \<Rightarrow> DWORD \<Rightarrow> 32 word \<times> DWORD"
  r_NCryptSignHash :: "handle \<Rightarrow> pszAlgId option \<Rightarrow> byte list \<Rightarrow> DWORD \<Rightarrow> DWORD \<Rightarrow> 32 word \<times> byte list"
  r_CryptCreateHash :: "handle \<Rightarrow> DWORD \<Rightarrow> bool \<times> handle \<times> DWORD"
  r_CryptGetHashParam :: "handle \<Rightarrow> bool \<times> DWORD \<times> DWORD"
  r_CryptSetHashParam :: "handle \<Rightarrow> byte list \<Rightarrow> bool \<times> DWORD"
  r_CryptSignHash_len :: "handle \<Rightarrow> DWORD \<Rightarrow> bool \<times> DWORD \<times> DWORD"
  r_CryptSignHash :: "handle \<Rightarrow> DWORD \<Rightarrow> DWORD \<Rightarrow> bool \<times> byte list \<times> DWORD"

text \<open>\<open>lastError(msg) = errors.Wrap(errCode(C.GetLastError()), msg)\<close>.\<close>

definition lastError :: "string \<Rightarrow> world \<Rightarrow> error \<times> world" where
  "lastError msg w = (Wrap (errCode (last_error w)) msg, called GetLastError w)"

text \<open>\<open>checkStatus\<close>: \<open>ERROR_SUCCESS\<close> is 0.\<close>

definition checkStatus :: "32 word \<Rightarrow> error option" where
  "checkStatus s = (if s = 0 then None else Some (securityStatus s))"

section \<open>winStore\<close>

record winStore =
  store :: handle
  prev :: PCCERT_CONTEXT
  err :: "error option"
  closed :: bool

text \<open>\<open>(s *winStore) _check\<close>. The receiver is a pointer and may be nil: \<open>None\<close>.\<close>

definition winStore_check :: "winStore option \<Rightarrow> error option" where
  "winStore_check s =
     (case s of
        None \<Rightarrow> Some (New ''nil winStore pointer'')
      | Some st \<Rightarrow>
          if store st = 0 then Some (New ''nil winStore pointer'')
          else if winStore.closed st then Some (New ''store closed'')
          else None)"

text \<open>\<open>openMyCertStore\<close>.\<close>

definition openMyCertStore :: "native \<Rightarrow> world \<Rightarrow> (error + winStore) \<times> world" where
  "openMyCertStore N w =
     (let w1 = called CertOpenStore w in
      if fst (r_CertOpenStore N) = 0
      then (let (e, w2) = lastError ''failed to open system cert store''
                            (failed (snd (r_CertOpenStore N)) w1)
            in (Inl e, w2))
      else (Inr \<lparr>store = fst (r_CertOpenStore N), prev = 0, err = None, closed = False\<rparr>, w1))"

text \<open>The native \<open>CertFindCertificateInStore(store, ..., CERT_FIND_ANY, nil, prev)\<close>.\<close>

definition c_CertFindCertificateInStore ::
  "native \<Rightarrow> world \<Rightarrow> handle \<Rightarrow> PCCERT_CONTEXT \<Rightarrow> PCCERT_CONTEXT \<times> world" where
  "c_CertFindCertificateInStore N w h p =
     (let w1 = called (CertFindCertificateInStore h p) w in
      if p < yields N h then (Suc p, w1) else (0, failed (stop_code N h) w1))"

text \<open>
  \<open>(s *winStore) nextCert\<close>. On a nil receiver \<open>_check\<close> returns an error and the
  assignment \<open>s.err = err\<close> dereferences the nil pointer.
\<close>

fun nextCert ::
  "native \<Rightarrow> world \<Rightarrow> winStore option \<Rightarrow> PCCERT_CONTEXT outcome \<times> world \<times> winStore option" where
  "nextCert N w None = (Panic, w, None)"
| "nextCert N w (Some st) =
     (let s1 = (case winStore_check (Some st) of Some e \<Rightarrow> st\<lparr>err := Some e\<rparr> | None \<Rightarrow> st) in
      if err s1 \<noteq> None then (Return 0, w, Some s1)
      else
        (let (p, w1) = c_CertFindCertificateInStore N w (store s1) (prev s1);
             s2 = s1\<lparr>prev := p\<rparr>
         in if p = 0
            then (let (e, w2) = lastError ''CertFindCertificateInStore failed'' w1
                  in (Return 0, w2, Some (s2\<lparr>err := Some e\<rparr>)))
            else (Return p, w1, Some s2)))"

text \<open>\<open>(s *winStore) getError\<close>.\<close>

fun getError :: "winStore option \<Rightarrow> error option" where
  "getError None = winStore_check None"
| "getError (Some st) =
     (case winStore_check (Some st) of
        Some e \<Rightarrow> Some e
      | None \<Rightarrow>
          if errors_Cause (err st) = Some (errCode cryptENotFound) then None else err st)"

text \<open>\<open>(s *winStore) reset\<close>.\<close>

fun reset :: "world \<Rightarrow> winStore option \<Rightarrow> error option \<times> world \<times> winStore option" where
  "reset w None = (winStore_check None, w, None)"
| "reset w (Some st) =
     (case winStore_check (Some st) of
        Some e \<Rightarrow> (Some e, w, Some st)
      | None \<Rightarrow>
          (let w1 = (if prev st \<noteq> 0 then called (CertFreeCertificateContext (prev st)) w else w)
           in (None, w1, Some (st\<lparr>prev := 0, err := None\<rparr>))))"

text \<open>\<open>(s *winStore) Close\<close>. It has no result; on a failed check it returns at once.\<close>

fun winStore_Close :: "world \<Rightarrow> winStore option \<Rightarrow> world \<times> winStore option" where
  "winStore_Close w None = (w, None)"
| "winStore_Close w (Some st) =
     (case winStore_check (Some st) of
        Some e \<Rightarrow> (w, Some st)
      | None \<Rightarrow>
          (let w1 = (if prev st \<noteq> 0 then called (CertFreeCertificateContext (prev st)) w else w);
               w2 = called (CertCloseStore (store st)) w1
           in (w2, Some (st\<lparr>closed := True\<rparr>))))"

section \<open>winPrivateKey\<close>

record winPrivateKey =
  publicKey :: "PublicKey option"
  capiProv :: handle
  cngHandle :: handle
  keySpec :: DWORD

text \<open>\<open>var winAPIFlag C.DWORD = C.CRYPT_ACQUIRE_ALLOW_NCRYPT_KEY_FLAG\<close> and the wincrypt.h
  constants the source names.\<close>

definition CRYPT_ACQUIRE_ALLOW_NCRYPT_KEY_FLAG :: DWORD where
  "CRYPT_ACQUIRE_ALLOW_NCRYPT_KEY_FLAG = 0x00010000"

definition CRYPT_ACQUIRE_PREFER_NCRYPT_KEY_FLAG :: DWORD where
  "CRYPT_ACQUIRE_PREFER_NCRYPT_KEY_FLAG = 0x00020000"

definition CRYPT_ACQUIRE_ONLY_NCRYPT_KEY_FLAG :: DWORD where
  "CRYPT_ACQUIRE_ONLY_NCRYPT_KEY_FLAG = 0x00040000"

definition winAPIFlag :: DWORD where
  "winAPIFlag = CRYPT_ACQUIRE_ALLOW_NCRYPT_KEY_FLAG"

definition CERT_NCRYPT_KEY_SPEC :: DWORD where
  "CERT_NCRYPT_KEY_SPEC = 0xFFFFFFFF"

definition CRYPT_USER_KEYSET :: DWORD where
  "CRYPT_USER_KEYSET = 0x00001000"

definition PKCS12_PREFER_CNG_KSP :: DWORD where
  "PKCS12_PREFER_CNG_KSP = 0x00000100"

definition PKCS12_ALWAYS_CNG_KSP :: DWORD where
  "PKCS12_ALWAYS_CNG_KSP = 0x00000200"

definition BCRYPT_PAD_PKCS1 :: DWORD where
  "BCRYPT_PAD_PKCS1 = 0x00000002"

definition CALG_SHA1 :: DWORD where "CALG_SHA1 = 0x00008004"
definition CALG_SHA_256 :: DWORD where "CALG_SHA_256 = 0x0000800c"
definition CALG_SHA_384 :: DWORD where "CALG_SHA_384 = 0x0000800d"
definition CALG_SHA_512 :: DWORD where "CALG_SHA_512 = 0x0000800e"

text \<open>\<open>newWinPrivateKey\<close>. \<open>winTrue\<close> is 1.\<close>

definition newWinPrivateKey ::
  "native \<Rightarrow> world \<Rightarrow> PCCERT_CONTEXT \<Rightarrow> PublicKey option \<Rightarrow> (error + winPrivateKey) \<times> world" where
  "newWinPrivateKey N w certCtx pk =
     (if pk = None then (Inl (New ''nil public key''), w)
      else
        (let w1 = called (CryptFindCertificateKeyProvInfo certCtx) w;
             (ok, code) = r_CryptFindCertificateKeyProvInfo N certCtx
         in if \<not> ok
            then (let (e, w2) = lastError ''failed to find private key for certificate'' (failed code w1)
                  in (Inl e, w2))
            else
              (let w2 = called (CryptAcquireCertificatePrivateKey certCtx) w1;
                   (ok2, provOrKey, spec, mustFree, code2) =
                      r_CryptAcquireCertificatePrivateKey N certCtx winAPIFlag
               in if \<not> ok2
                  then (let (e, w3) = lastError ''failed to get private key for certificate'' (failed code2 w2)
                        in (Inl e, w3))
                  else if mustFree \<noteq> 1
                  then (Inl (New ''CryptAcquireCertificatePrivateKey set mustFree''), w2)
                  else if spec = CERT_NCRYPT_KEY_SPEC
                  then (Inr \<lparr>publicKey = pk, capiProv = 0, cngHandle = provOrKey, keySpec = 0\<rparr>, w2)
                  else (Inr \<lparr>publicKey = pk, capiProv = provOrKey, cngHandle = 0, keySpec = spec\<rparr>, w2))))"

text \<open>\<open>(wpk *winPrivateKey) Close\<close>.\<close>

definition winPrivateKey_Close :: "world \<Rightarrow> winPrivateKey \<Rightarrow> world" where
  "winPrivateKey_Close w wpk =
     (let w1 = (if cngHandle wpk \<noteq> 0 then called (NCryptFreeObject (cngHandle wpk)) w else w)
      in if capiProv wpk \<noteq> 0 then called (CryptReleaseContext (capiProv wpk)) w1 else w1)"

section \<open>winIdentity\<close>

record winIdentity =
  ctx :: PCCERT_CONTEXT
  signer :: "winPrivateKey option"
  closed :: bool

text \<open>\<open>newWinIdentity\<close>. \<open>CertDuplicateCertificateContext\<close> increments the reference
  count of the context and returns the pointer it was given.\<close>

definition newWinIdentity :: "world \<Rightarrow> PCCERT_CONTEXT \<Rightarrow> winIdentity \<times> world" where
  "newWinIdentity w c =
     (\<lparr>ctx = c, signer = None, closed = False\<rparr>, called (CertDuplicateCertificateContext c) w)"

text \<open>\<open>(i *winIdentity) _check\<close>.\<close>

definition winIdentity_check :: "winIdentity option \<Rightarrow> error option" where
  "winIdentity_check i =
     (case i of
        None \<Rightarrow> Some (New ''nil winIdentity pointer'')
      | Some ident \<Rightarrow>
          if ctx ident = 0 then Some (New ''nil certificate context'')
          else if closed ident then Some (New ''identity closed'')
          else None)"

text \<open>\<open>(i *winIdentity) GetCertificate\<close>. \<open>C.GoBytes\<close> copies the encoded certificate
  out of the context; it is no Windows API call.\<close>

fun GetCertificate :: "native \<Rightarrow> winIdentity option \<Rightarrow> error + x509_Certificate" where
  "GetCertificate N None = Inl (New ''nil winIdentity pointer'')"
| "GetCertificate N (Some ident) =
     (case winIdentity_check (Some ident) of
        Some e \<Rightarrow> Inl e
      | None \<Rightarrow>
          (case x509_ParseCertificate N (pbCertEncoded N (ctx ident)) of
             Inl e \<Rightarrow> Inl (Wrap e ''certificate parsing failed'')
           | Inr cert \<Rightarrow> Inr cert))"

text \<open>\<open>(i *winIdentity) getPrivateKey\<close>; \<open>GetSigner\<close> returns what it returns.\<close>

fun getPrivateKey ::
  "native \<Rightarrow> world \<Rightarrow> winIdentity option \<Rightarrow> (error + winPrivateKey) \<times> world \<times> winIdentity option" where
  "getPrivateKey N w None = (Inl (New ''nil winIdentity pointer''), w, None)"
| "getPrivateKey N w (Some ident) =
     (case winIdentity_check (Some ident) of
        Some e \<Rightarrow> (Inl e, w, Some ident)
      | None \<Rightarrow>
          (case signer ident of
             Some k \<Rightarrow> (Inr k, w, Some ident)
           | None \<Rightarrow>
               (case GetCertificate N (Some ident) of
                  Inl e \<Rightarrow> (Inl (Wrap e ''failed to get identity certificate''), w, Some ident)
                | Inr cert \<Rightarrow>
                    (case newWinPrivateKey N w (ctx ident) (PublicKey cert) of
                       (Inl e, w1) \<Rightarrow>
                         (Inl (Wrap e ''failed to load identity private key''), w1, Some ident)
                     | (Inr k, w1) \<Rightarrow> (Inr k, w1, Some (ident\<lparr>signer := Some k\<rparr>))))))"

definition GetSigner ::
  "native \<Rightarrow> world \<Rightarrow> winIdentity option \<Rightarrow> (error + winPrivateKey) \<times> world \<times> winIdentity option" where
  "GetSigner N w i = getPrivateKey N w i"

text \<open>\<open>(i *winIdentity) Close\<close>. The source assigns to no field of the identity.\<close>

fun winIdentity_Close :: "world \<Rightarrow> winIdentity option \<Rightarrow> world \<times> winIdentity option" where
  "winIdentity_Close w None = (w, None)"
| "winIdentity_Close w (Some ident) =
     (case winIdentity_check (Some ident) of
        Some e \<Rightarrow> (w, Some ident)
      | None \<Rightarrow>
          (let w1 = (case signer ident of Some k \<Rightarrow> winPrivateKey_Close w k | None \<Rightarrow> w);
               w2 = called (CertFreeCertificateContext (ctx ident)) w1
           in (w2, Some ident)))"

section \<open>Enumeration and import\<close>

text \<open>\<open>for _, ident := range idents { ident.Close() }\<close>.\<close>

fun close_idents :: "world \<Rightarrow> winIdentity list \<Rightarrow> world \<times> winIdentity list" where
  "close_idents w [] = (w, [])"
| "close_idents w (ident # rest) =
     (case winIdentity_Close w (Some ident) of
        (w1, i1) \<Rightarrow>
          (case close_idents w1 rest of
             (w2, rest1) \<Rightarrow> (w2, (case i1 of Some i \<Rightarrow> i | None \<Rightarrow> ident) # rest1)))"

text \<open>The \<open>for ctx := store.nextCert(); ctx != nil; ctx = store.nextCert()\<close> loop of
  \<open>findIdentities\<close>, with the identities appended so far.\<close>

function findIdentities_loop ::
  "native \<Rightarrow> world \<Rightarrow> winStore option \<Rightarrow> winIdentity list
     \<Rightarrow> winIdentity list outcome \<times> world \<times> winStore option" where
  "findIdentities_loop N w s idents =
     (case nextCert N w s of
        (Panic, w1, s1) \<Rightarrow> (Panic, w1, s1)
      | (Return c, w1, s1) \<Rightarrow>
          if c = 0 then (Return idents, w1, s1)
          else (case newWinIdentity w1 c of
                  (i, w2) \<Rightarrow> findIdentities_loop N w2 s1 (idents @ [i])))"
  by pat_completeness auto

text \<open>What is left of a store's iteration: nothing once its check fails or its error is
  set, else the entries the native collection has after the cursor.\<close>

definition remaining :: "native \<Rightarrow> winStore option \<Rightarrow> nat" where
  "remaining N s =
     (case s of
        None \<Rightarrow> 0
      | Some st \<Rightarrow>
          if winStore_check (Some st) \<noteq> None \<or> err st \<noteq> None then 0
          else Suc (yields N (store st) - prev st))"

termination findIdentities_loop
  apply (relation "measure (\<lambda>(N, w, s, idents). remaining N s)")
   apply simp
  subgoal for N w s idents x x1 y c w1 s1
    apply (cases s)
     apply (auto simp: remaining_def winStore_check_def c_CertFindCertificateInStore_def
          Let_def lastError_def
          split: if_splits option.splits prod.splits)
    done
  done

declare findIdentities_loop.simps [simp del]

text \<open>\<open>findIdentities\<close>.\<close>

definition findIdentities ::
  "native \<Rightarrow> world \<Rightarrow> winStore option
     \<Rightarrow> (error + winIdentity list) outcome \<times> world \<times> winStore option" where
  "findIdentities N w s =
     (case findIdentities_loop N w s [] of
        (Panic, w1, s1) \<Rightarrow> (Panic, w1, s1)
      | (Return idents, w1, s1) \<Rightarrow>
          (case getError s1 of
             Some e \<Rightarrow>
               (Return (Inl (Wrap e ''identity iteration failed'')), fst (close_idents w1 idents), s1)
           | None \<Rightarrow> (Return (Inr idents), w1, s1)))"

text \<open>\<open>FindIdentities\<close>. The deferred \<open>store.Close()\<close> runs after the results are
  computed, on every path that opened the store; the store is returned here too, so that
  its final state can be read.\<close>

definition FindIdentities ::
  "native \<Rightarrow> world \<Rightarrow> (error + winIdentity list) outcome \<times> world \<times> winStore option" where
  "FindIdentities N w =
     (case openMyCertStore N w of
        (Inl e, w1) \<Rightarrow> (Return (Inl (Wrap e ''openMyCertStore failed'')), w1, None)
      | (Inr st, w1) \<Rightarrow>
          (case findIdentities N w1 (Some st) of
             (r, w2, s2) \<Rightarrow>
               (case winStore_Close w2 s2 of
                  (w3, s3) \<Rightarrow>
                    ((case r of
                        Panic \<Rightarrow> Panic
                      | Return (Inl e) \<Rightarrow> Return (Inl (Wrap e ''findIdentities failed''))
                      | Return (Inr idents) \<Rightarrow> Return (Inr idents)),
                     w3, s3))))"

text \<open>
  The loop of \<open>importPFX\<close> over the transient store \<open>wstore\<close>: \<open>Inr\<close> is the list of
  identities when the loop runs to its end, \<open>Inl\<close> the error of the early return out of
  it. \<open>s.store\<close> dereferences the receiver, which panics when it is nil.
\<close>

function importPFX_loop ::
  "native \<Rightarrow> world \<Rightarrow> winStore option \<Rightarrow> winStore option \<Rightarrow> winIdentity list
     \<Rightarrow> (error + winIdentity list) outcome \<times> world \<times> winStore option" where
  "importPFX_loop N w s wstore idents =
     (case nextCert N w wstore of
        (Panic, w1, ws1) \<Rightarrow> (Panic, w1, ws1)
      | (Return c, w1, ws1) \<Rightarrow>
          if c = 0 then (Return (Inr idents), w1, ws1)
          else
            (case s of
               None \<Rightarrow> (Panic, w1, ws1)
             | Some st \<Rightarrow>
                 (let w2 = called (CertAddEncodedCertificateToStore (store st) c) w1;
                      (ok, newCtx, code) = r_CertAddEncodedCertificateToStore N (store st) c
                  in if \<not> ok
                     then (let w3 = fst (close_idents (failed code w2) idents);
                               (e, w4) = lastError ''failed to add imported certificate to MY store'' w3
                           in (Return (Inl e), w4, ws1))
                     else (case newWinIdentity w2 newCtx of
                             (i, w3) \<Rightarrow> importPFX_loop N w3 s ws1 (idents @ [i])))))"
  by pat_completeness auto

termination importPFX_loop
  apply (relation "measure (\<lambda>(N, w, s, wstore, idents). remaining N wstore)")
   apply simp
  subgoal for N w s wstore
    apply (cases wstore)
     apply (auto simp: remaining_def winStore_check_def c_CertFindCertificateInStore_def
          Let_def lastError_def
          split: if_splits option.splits prod.splits)
    done
  done

text \<open>\<open>(s *winStore) importPFX\<close>. The deferred \<open>wstore.Close()\<close> runs on every path
  after the transient store exists.\<close>

definition importPFX ::
  "native \<Rightarrow> world \<Rightarrow> winStore option \<Rightarrow> byte list \<Rightarrow> string
     \<Rightarrow> (error + winIdentity list) outcome \<times> world" where
  "importPFX N w s data password =
     (let flags = CRYPT_USER_KEYSET OR
                    (if winAPIFlag AND CRYPT_ACQUIRE_PREFER_NCRYPT_KEY_FLAG > 0
                     then PKCS12_PREFER_CNG_KSP
                     else if winAPIFlag AND CRYPT_ACQUIRE_ONLY_NCRYPT_KEY_FLAG > 0
                     then PKCS12_ALWAYS_CNG_KSP
                     else 0);
          w1 = called PFXImportCertStore w;
          (h, code) = r_PFXImportCertStore N data password flags
      in if h = 0
         then (let (e, w2) = lastError ''failed to import PFX cert store'' (failed code w1)
               in (Return (Inl e), w2))
         else
           (case importPFX_loop N w1 s (Some \<lparr>store = h, prev = 0, err = None, closed = False\<rparr>) [] of
              (r, w2, ws2) \<Rightarrow>
                (case r of
                   Panic \<Rightarrow> (Panic, fst (winStore_Close w2 ws2))
                 | Return (Inl e) \<Rightarrow> (Return (Inl e), fst (winStore_Close w2 ws2))
                 | Return (Inr idents) \<Rightarrow>
                     (case getError ws2 of
                        Some e \<Rightarrow>
                          (Return (Inl e), fst (winStore_Close (fst (close_idents w2 idents)) ws2))
                      | None \<Rightarrow> (Return (Inr idents), fst (winStore_Close w2 ws2))))))"

section \<open>Signing\<close>

text \<open>
  \<open>crypto.Hash\<close> of the Go library: the registered hash functions, and \<open>UnknownHash\<close>
  for every other value of the type (0 among them). \<open>Size\<close> panics on an unknown hash.
\<close>

datatype Hash =
    MD4 | MD5 | SHA1 | SHA224 | SHA256 | SHA384 | SHA512 | MD5SHA1 | RIPEMD160
  | SHA3_224 | SHA3_256 | SHA3_384 | SHA3_512 | SHA512_224 | SHA512_256
  | BLAKE2s_256 | BLAKE2b_256 | BLAKE2b_384 | BLAKE2b_512 | UnknownHash

fun Hash_Size :: "Hash \<Rightarrow> nat option" where
  "Hash_Size MD4 = Some 16"
| "Hash_Size MD5 = Some 16"
| "Hash_Size SHA1 = Some 20"
| "Hash_Size SHA224 = Some 28"
| "Hash_Size SHA256 = Some 32"
| "Hash_Size SHA384 = Some 48"
| "Hash_Size SHA512 = Some 64"
| "Hash_Size MD5SHA1 = Some 36"
| "Hash_Size RIPEMD160 = Some 20"
| "Hash_Size SHA3_224 = Some 28"
| "Hash_Size SHA3_256 = Some 32"
| "Hash_Size SHA3_384 = Some 48"
| "Hash_Size SHA3_512 = Some 64"
| "Hash_Size SHA512_224 = Some 28"
| "Hash_Size SHA512_256 = Some 32"
| "Hash_Size BLAKE2s_256 = Some 32"
| "Hash_Size BLAKE2b_256 = Some 32"
| "Hash_Size BLAKE2b_384 = Some 48"
| "Hash_Size BLAKE2b_512 = Some 64"
| "Hash_Size UnknownHash = None"

text \<open>\<open>make([]byte, n)\<close> filled by a native call that writes \<open>out\<close> into it.\<close>

definition filled :: "nat \<Rightarrow> byte list \<Rightarrow> byte list" where
  "filled n out = take n out @ replicate (n - length out) 0"

subsection \<open>math/big and encoding/asn1, as far as the source uses them\<close>

text \<open>\<open>new(big.Int).SetBytes\<close>: the big-endian unsigned value of the bytes.\<close>

definition SetBytes :: "byte list \<Rightarrow> nat" where
  "SetBytes bs = foldl (\<lambda>a b. 256 * a + unat b) 0 bs"

text \<open>\<open>(*big.Int) Bytes\<close>: the big-endian bytes without leading zeros.\<close>

fun Bytes :: "nat \<Rightarrow> byte list" where
  "Bytes n = (if n = 0 then [] else Bytes (n div 256) @ [of_nat (n mod 256)])"

declare Bytes.simps [simp del]

text \<open>asn1's \<open>makeBigInt\<close> for a non-negative integer: \<open>0\<close> is the single byte 0, and a
  leading byte with its top bit set gets a zero byte in front.\<close>

definition makeBigInt :: "nat \<Rightarrow> byte list" where
  "makeBigInt n =
     (if n = 0 then [0]
      else (let bytes = Bytes n
            in if bytes \<noteq> [] \<and> hd bytes AND 0x80 \<noteq> 0 then 0 # bytes else bytes))"

text \<open>asn1's \<open>lengthLength\<close> and \<open>appendLength\<close>.\<close>

fun lengthLength :: "nat \<Rightarrow> nat" where
  "lengthLength i = (if i > 255 then Suc (lengthLength (i div 256)) else 1)"

declare lengthLength.simps [simp del]

fun appendLength :: "nat \<Rightarrow> nat \<Rightarrow> byte list" where
  "appendLength 0 i = []"
| "appendLength (Suc n) i = of_nat (i div 256 ^ n) # appendLength n i"

text \<open>asn1's \<open>appendTagAndLength\<close> for a tag below 31 that is already combined with its
  class and constructed bits.\<close>

definition appendTagAndLength :: "byte \<Rightarrow> nat \<Rightarrow> byte list" where
  "appendTagAndLength t len =
     t # (if len \<ge> 128
          then (0x80 OR of_nat (lengthLength len)) # appendLength (lengthLength len) len
          else [of_nat len])"

definition marshalInteger :: "nat \<Rightarrow> byte list" where
  "marshalInteger n = appendTagAndLength 0x02 (length (makeBigInt n)) @ makeBigInt n"

text \<open>\<open>asn1.Marshal(ecdsaSignature{r, s})\<close>: a SEQUENCE (tag \<open>0x30\<close>) of two INTEGERs
  (tag \<open>0x02\<close>). For two non-nil, non-negative integers it returns no error.\<close>

definition asn1_Marshal_ecdsaSignature :: "nat \<Rightarrow> nat \<Rightarrow> error + byte list" where
  "asn1_Marshal_ecdsaSignature r s =
     (let body = marshalInteger r @ marshalInteger s
      in Inr (appendTagAndLength 0x30 (length body) @ body))"

subsection \<open>Reading an encoded signature\<close>

text \<open>
  The reading side, written after the specification's words ("the returned signature
  decodes as a structured two-integer record whose two integers are non-negative") and
  the definite-length form of X.690: a tag octet, a length in the short form (below 128)
  or the long form (\<open>0x80\<close> plus the number of length octets, then the length in
  big-endian), the contents. It is not part of the source; the encoder above is compared
  with it.
\<close>

fun spec_decode_length :: "byte list \<Rightarrow> (nat \<times> byte list) option" where
  "spec_decode_length [] = None"
| "spec_decode_length (b # bs) =
     (if b < 0x80 then Some (unat b, bs)
      else (let k = unat (b AND 0x7F)
            in if k = 0 \<or> length bs < k then None
               else Some (SetBytes (take k bs), drop k bs)))"

definition spec_decode_element :: "byte \<Rightarrow> byte list \<Rightarrow> (byte list \<times> byte list) option" where
  "spec_decode_element t bs =
     (case bs of
        [] \<Rightarrow> None
      | b # rest \<Rightarrow>
          if b \<noteq> t then None
          else (case spec_decode_length rest of
                  None \<Rightarrow> None
                | Some (n, rest') \<Rightarrow>
                    if length rest' < n then None else Some (take n rest', drop n rest')))"

definition spec_decode_integer :: "byte list \<Rightarrow> nat option" where
  "spec_decode_integer c = (if c = [] \<or> hd c AND 0x80 \<noteq> 0 then None else Some (SetBytes c))"

definition spec_decode_ecdsaSignature :: "byte list \<Rightarrow> (nat \<times> nat) option" where
  "spec_decode_ecdsaSignature bs =
     (case spec_decode_element 0x30 bs of
        Some (body, []) \<Rightarrow>
          (case spec_decode_element 0x02 body of
             Some (rc, rest) \<Rightarrow>
               (case spec_decode_element 0x02 rest of
                  Some (sc, []) \<Rightarrow>
                    (case (spec_decode_integer rc, spec_decode_integer sc) of
                       (Some r, Some s) \<Rightarrow> Some (r, s)
                     | _ \<Rightarrow> None)
                | _ \<Rightarrow> None)
           | None \<Rightarrow> None)
      | _ \<Rightarrow> None)"

subsection \<open>The modern back end\<close>

text \<open>The padding set up for an RSA key: the padding pointer and the flags, or the
  error of the \<open>default\<close> branch.\<close>

definition cng_padding :: "winPrivateKey \<Rightarrow> Hash \<Rightarrow> error + (pszAlgId option \<times> DWORD)" where
  "cng_padding wpk hash =
     (if publicKey wpk = Some RSAPublicKey
      then (case hash of
              SHA1 \<Rightarrow> Inr (Some BCRYPT_SHA1_ALGORITHM, 0 OR BCRYPT_PAD_PKCS1)
            | SHA256 \<Rightarrow> Inr (Some BCRYPT_SHA256_ALGORITHM, 0 OR BCRYPT_PAD_PKCS1)
            | SHA384 \<Rightarrow> Inr (Some BCRYPT_SHA384_ALGORITHM, 0 OR BCRYPT_PAD_PKCS1)
            | SHA512 \<Rightarrow> Inr (Some BCRYPT_SHA512_ALGORITHM, 0 OR BCRYPT_PAD_PKCS1)
            | _ \<Rightarrow> Inl (New ''unsupported hash algorithm''))
      else Inr (None, 0))"

text \<open>The end of \<open>cngSignHash\<close>: the re-encoding of an elliptic-curve signature.\<close>

definition cng_encode :: "winPrivateKey \<Rightarrow> byte list \<Rightarrow> error + byte list" where
  "cng_encode wpk sig =
     (if publicKey wpk = Some ECDSAPublicKey
      then (if length sig mod 2 \<noteq> 0 then Inl (New ''bad ecdsa signature from CNG'')
            else (case asn1_Marshal_ecdsaSignature
                         (SetBytes (take (length sig div 2) sig))
                         (SetBytes (drop (length sig div 2) sig)) of
                    Inl e \<Rightarrow> Inl (Wrap e ''failed to ASN.1 encode EC signature'')
                  | Inr encoded \<Rightarrow> Inr encoded))
      else Inr sig)"

text \<open>\<open>(wpk *winPrivateKey) cngSignHash\<close>. \<open>&digest[0]\<close> and \<open>&sig[0]\<close> panic on an
  empty slice.\<close>

definition cngSignHash ::
  "native \<Rightarrow> world \<Rightarrow> winPrivateKey \<Rightarrow> Hash \<Rightarrow> byte list \<Rightarrow> (error + byte list) outcome \<times> world" where
  "cngSignHash N w wpk hash digest =
     (case Hash_Size hash of
        None \<Rightarrow> (Panic, w)
      | Some n \<Rightarrow>
          if length digest \<noteq> n then (Return (Inl (New ''bad digest for hash'')), w)
          else if digest = [] then (Panic, w)
          else
            (case cng_padding wpk hash of
               Inl e \<Rightarrow> (Return (Inl e), w)
             | Inr (padPtr, flags) \<Rightarrow>
                 (let w1 = called (NCryptSignHash (cngHandle wpk)) w;
                      (st1, sigLen) = r_NCryptSignHash_len N (cngHandle wpk) padPtr digest flags
                  in case checkStatus st1 of
                       Some e \<Rightarrow> (Return (Inl (Wrap e ''failed to get signature length'')), w1)
                     | None \<Rightarrow>
                         if sigLen = 0 then (Panic, w1)
                         else
                           (let w2 = called (NCryptSignHash (cngHandle wpk)) w1;
                                (st2, out) = r_NCryptSignHash N (cngHandle wpk) padPtr digest sigLen flags;
                                sig = filled (unat sigLen) out
                            in case checkStatus st2 of
                                 Some e \<Rightarrow> (Return (Inl (Wrap e ''failed to sign digest'')), w2)
                               | None \<Rightarrow> (Return (cng_encode wpk sig), w2)))))"

subsection \<open>The legacy back end\<close>

definition capi_hash_alg :: "Hash \<Rightarrow> DWORD option" where
  "capi_hash_alg hash =
     (case hash of
        SHA1 \<Rightarrow> Some CALG_SHA1
      | SHA256 \<Rightarrow> Some CALG_SHA_256
      | SHA384 \<Rightarrow> Some CALG_SHA_384
      | SHA512 \<Rightarrow> Some CALG_SHA_512
      | _ \<Rightarrow> None)"

text \<open>
  The loop \<open>for i := len(sig)/2 - 1; i >= 0; i-- { opp := len(sig) - 1 - i;
  sig[i], sig[opp] = sig[opp], sig[i] }\<close>, from the index \<open>i\<close>. An index outside the
  slice panics.
\<close>

function reverse_from :: "int \<Rightarrow> byte list \<Rightarrow> byte list outcome" where
  "reverse_from i sig =
     (if i \<ge> 0
      then (let opp = int (length sig) - 1 - i
            in if i < int (length sig) \<and> 0 \<le> opp \<and> opp < int (length sig)
               then reverse_from (i - 1) (sig[nat i := sig ! nat opp, nat opp := sig ! nat i])
               else Panic)
      else Return sig)"
  by pat_completeness auto

termination reverse_from
  by (relation "measure (\<lambda>(i, sig). nat (i + 1))") auto

declare reverse_from.simps [simp del]

text \<open>The part of \<open>capiSignHash\<close> that runs under \<open>defer C.CryptDestroyHash(chash)\<close>;
  \<open>n\<close> is \<open>hash.Size()\<close>.\<close>

definition capiSignHash_hashed ::
  "native \<Rightarrow> world \<Rightarrow> winPrivateKey \<Rightarrow> nat \<Rightarrow> byte list \<Rightarrow> handle
     \<Rightarrow> (error + byte list) outcome \<times> world" where
  "capiSignHash_hashed N w wpk n digest chash =
     (let w1 = called (CryptGetHashParam chash) w;
          (ok1, hashSize, code1) = r_CryptGetHashParam N chash
      in if \<not> ok1
         then (let (e, w2) = lastError ''failed to get hash size'' (failed code1 w1)
               in (Return (Inl e), w2))
         else if n \<noteq> unat hashSize then (Return (Inl (New ''invalid CryptoAPI hash'')), w1)
         else if digest = [] then (Panic, w1)
         else
           (let w2 = called (CryptSetHashParam chash) w1;
                (ok2, code2) = r_CryptSetHashParam N chash digest
            in if \<not> ok2
               then (let (e, w3) = lastError ''failed to set hash digest'' (failed code2 w2)
                     in (Return (Inl e), w3))
               else
                 (let w3 = called (CryptSignHash chash) w2;
                      (ok3, sigLen, code3) = r_CryptSignHash_len N chash (keySpec wpk)
                  in if \<not> ok3
                     then (let (e, w4) = lastError ''failed to get signature length'' (failed code3 w3)
                           in (Return (Inl e), w4))
                     else if sigLen = 0 then (Panic, w3)
                     else
                       (let w4 = called (CryptSignHash chash) w3;
                            (ok4, out, code4) = r_CryptSignHash N chash (keySpec wpk) sigLen;
                            sig = filled (unat sigLen) out
                        in if \<not> ok4
                           then (let (e, w5) = lastError ''failed to sign digest'' (failed code4 w4)
                                 in (Return (Inl e), w5))
                           else (case reverse_from (int (length sig) div 2 - 1) sig of
                                   Panic \<Rightarrow> (Panic, w4)
                                 | Return sig' \<Rightarrow> (Return (Inr sig'), w4))))))"

text \<open>\<open>(wpk *winPrivateKey) capiSignHash\<close>.\<close>

definition capiSignHash ::
  "native \<Rightarrow> world \<Rightarrow> winPrivateKey \<Rightarrow> Hash \<Rightarrow> byte list \<Rightarrow> (error + byte list) outcome \<times> world" where
  "capiSignHash N w wpk hash digest =
     (case Hash_Size hash of
        None \<Rightarrow> (Panic, w)
      | Some n \<Rightarrow>
          if length digest \<noteq> n then (Return (Inl (New ''bad digest for hash'')), w)
          else
            (case capi_hash_alg hash of
               None \<Rightarrow> (Return (Inl (New ''unsupported hash algorithm'')), w)
             | Some hash_alg \<Rightarrow>
                 (let w1 = called (CryptCreateHash (capiProv wpk)) w;
                      (ok, chash, code) = r_CryptCreateHash N (capiProv wpk) hash_alg
                  in if \<not> ok
                     then (let (e, w2) = lastError ''failed to create hash'' (failed code w1)
                           in (Return (Inl e), w2))
                     else (case capiSignHash_hashed N w1 wpk n digest chash of
                             (r, w2) \<Rightarrow> (r, called (CryptDestroyHash chash) w2)))))"

text \<open>\<open>(wpk *winPrivateKey) Sign\<close>, with \<open>hash\<close> for \<open>opts.HashFunc()\<close>; \<open>rand\<close> is not
  used by the source.\<close>

definition Sign ::
  "native \<Rightarrow> world \<Rightarrow> winPrivateKey \<Rightarrow> byte list \<Rightarrow> Hash \<Rightarrow> (error + byte list) outcome \<times> world" where
  "Sign N w wpk digest hash =
     (if capiProv wpk \<noteq> 0 then capiSignHash N w wpk hash digest
      else if cngHandle wpk \<noteq> 0 then cngSignHash N w wpk hash digest
      else (Return (Inl (New ''bad private key'')), w))"

section \<open>The PKCS\#11 store (certstore\_linux.go)\<close>

text \<open>The two lookups of the crypto11 binding that the source calls; their answers are
  parameters. \<open>FindCertificate\<close> may find nothing and return a nil certificate with a nil
  error.\<close>

record crypto11_Context =
  FindCertificate :: "nat \<Rightarrow> error + x509_Certificate option"
  FindKeyPair :: "byte list \<Rightarrow> error + nat"

record linuxStore =
  ctx :: crypto11_Context

record linuxIdent =
  cert :: x509_Certificate
  signer :: nat

text \<open>\<open>(store *linuxStore) Identities\<close>. \<open>panic(err)\<close> is a panic; so is reading
  \<open>cert.SubjectKeyId\<close> through a nil certificate.\<close>

definition Identities :: "linuxStore \<Rightarrow> (error + linuxIdent list) outcome" where
  "Identities st =
     (case FindCertificate (linuxStore.ctx st) 0x04024FFB1E82B2A48FD1BA7B393DD897 of
        Inl e \<Rightarrow> Panic
      | Inr None \<Rightarrow> Panic
      | Inr (Some c) \<Rightarrow>
          (case FindKeyPair (linuxStore.ctx st) (SubjectKeyId c) of
             Inl e \<Rightarrow> Panic
           | Inr sg \<Rightarrow> Return (Inr [\<lparr>cert = c, signer = sg\<rparr>])))"

section \<open>Example environments\<close>

text \<open>Concrete answers of the native subsystem and concrete values, on which the
  theorems below are run.\<close>

definition example_native :: native where
  "example_native =
     \<lparr>r_CertOpenStore = (7, 0),
      yields = (\<lambda>h. 2),
      stop_code = (\<lambda>h. cryptENotFound),
      r_PFXImportCertStore = (\<lambda>data password flags. (5, 0)),
      r_CertAddEncodedCertificateToStore = (\<lambda>h c. (True, 10 + c, 0)),
      pbCertEncoded = (\<lambda>c. [0x30]),
      x509_ParseCertificate = (\<lambda>der. Inr \<lparr>PublicKey = Some ECDSAPublicKey, SubjectKeyId = []\<rparr>),
      r_CryptFindCertificateKeyProvInfo = (\<lambda>c. (True, 0)),
      r_CryptAcquireCertificatePrivateKey = (\<lambda>c flag. (True, 11, CERT_NCRYPT_KEY_SPEC, 1, 0)),
      r_NCryptSignHash_len = (\<lambda>h pad digest flags. (0, 4)),
      r_NCryptSignHash = (\<lambda>h pad digest n flags. (0, [0x01, 0x02, 0x80, 0x04])),
      r_CryptCreateHash = (\<lambda>prov alg. (True, 12, 0)),
      r_CryptGetHashParam = (\<lambda>chash. (True, 20, 0)),
      r_CryptSetHashParam = (\<lambda>chash digest. (True, 0)),
      r_CryptSignHash_len = (\<lambda>chash spec. (True, 3, 0)),
      r_CryptSignHash = (\<lambda>chash spec n. (True, [1, 2, 3], 0))\<rparr>"

definition example_world :: world where
  "example_world = \<lparr>trace = [], last_error = 0\<rparr>"

definition example_capi_key :: winPrivateKey where
  "example_capi_key = \<lparr>publicKey = Some RSAPublicKey, capiProv = 11, cngHandle = 0, keySpec = 1\<rparr>"

definition example_cng_key :: winPrivateKey where
  "example_cng_key = \<lparr>publicKey = Some ECDSAPublicKey, capiProv = 0, cngHandle = 11, keySpec = 0\<rparr>"

definition failing_native :: native where
  "failing_native = example_native\<lparr>stop_code := (\<lambda>h. 0x80070057)\<rparr>"

definition example_closed_store :: winStore where
  "example_closed_store = \<lparr>store = 9, prev = 0, err = None, closed = True\<rparr>"

definition example_identity :: winIdentity where
  "example_identity = \<lparr>winIdentity.ctx = 1, winIdentity.signer = Some example_cng_key, closed = False\<rparr>"

definition failing_token :: crypto11_Context where
  "failing_token = \<lparr>FindCertificate = (\<lambda>serial. Inl (Foreign ''pkcs11: token not present'')),
                     FindKeyPair = (\<lambda>id. Inr 1)\<rparr>"

section \<open>Properties\<close>

subsection \<open>The certificate store\<close>

lemma cryptENotFound_value: "cryptENotFound = 0x80092004"
  by (simp add: cryptENotFound_def)

lemma winStore_methods_check_first:
  assumes "winStore_check (Some st) = Some e"
  shows "getError (Some st) = Some e"
    and "reset w (Some st) = (Some e, w, Some st)"
    and "winStore_Close w (Some st) = (w, Some st)"
    and "nextCert N w (Some st) = (Return 0, w, Some (st\<lparr>err := Some e\<rparr>))"
  using assms by simp_all

lemma winStore_methods_nil:
  "getError None = Some (New ''nil winStore pointer'')"
  "reset w None = (Some (New ''nil winStore pointer''), w, None)"
  "winStore_Close w None = (w, None)"
  by (simp_all add: winStore_check_def)

text \<open>
  Claim C1. Every store operation on a nil or closed store fails with the
  invalid-state error, the check being its first action, before any native call. The
  source does this in \<open>getError\<close>, \<open>reset\<close>, \<open>Close\<close> and, for a closed store,
  \<open>nextCert\<close> (the two lemmas above), but not in \<open>importPFX\<close>, which has no check: on
  a closed store it imports the bundle, adds the certificates through the closed handle 9
  and returns identities. On a nil store \<open>nextCert\<close> panics.
\<close>

theorem importPFX_on_closed_store:
  "winStore_check (Some example_closed_store) = Some (New ''store closed'')
   \<and> importPFX example_native example_world (Some example_closed_store) [] ''pw''
      = (Return (Inr [\<lparr>winIdentity.ctx = 11, winIdentity.signer = None, closed = False\<rparr>,
                     \<lparr>winIdentity.ctx = 12, winIdentity.signer = None, closed = False\<rparr>]),
         \<lparr>trace = [PFXImportCertStore,
                   CertFindCertificateInStore 5 0,
                   CertAddEncodedCertificateToStore 9 1, CertDuplicateCertificateContext 11,
                   CertFindCertificateInStore 5 1,
                   CertAddEncodedCertificateToStore 9 2, CertDuplicateCertificateContext 12,
                   CertFindCertificateInStore 5 2, GetLastError,
                   CertCloseStore 5],
           last_error = cryptENotFound\<rparr>)
   \<and> nextCert example_native example_world None = (Panic, example_world, None)"
  by (simp add: importPFX_def importPFX_loop.simps example_native_def example_world_def
      example_closed_store_def winStore_check_def c_CertFindCertificateInStore_def
      called_def failed_def lastError_def newWinIdentity_def Let_def errors_Cause_def
      winAPIFlag_def CRYPT_ACQUIRE_ALLOW_NCRYPT_KEY_FLAG_def CRYPT_ACQUIRE_PREFER_NCRYPT_KEY_FLAG_def
      CRYPT_ACQUIRE_ONLY_NCRYPT_KEY_FLAG_def CRYPT_USER_KEYSET_def)

lemma nextCert_stop_records:
  assumes "winStore_check (Some st) = None" and "err st = None"
    and "nextCert N w (Some st) = (Return 0, w1, s1)"
  shows "s1 = Some (st\<lparr>prev := 0, err := Some (Wrap (errCode (stop_code N (store st))) ''CertFindCertificateInStore failed'')\<rparr>)
         \<and> trace w1 = trace w @ [CertFindCertificateInStore (store st) (prev st), GetLastError]"
  using assms
  by (auto simp: c_CertFindCertificateInStore_def lastError_def Let_def called_def failed_def
      split: if_splits)

text \<open>
  Claim C8. On an open store that has recorded the native code \<open>c\<close> of a
  failed lookup, \<open>getError\<close> returns no error exactly when \<open>c\<close> is the "not found"
  code, and returns the wrapped native error for every other code. (The lemma above shows
  that this is the error \<open>nextCert\<close> records when the native lookup stops.)
\<close>

theorem getError_distinguishes:
  assumes "winStore_check (Some st) = None"
    and "err st = Some (Wrap (errCode c) msg)"
  shows "(getError (Some st) = None \<longleftrightarrow> c = cryptENotFound) \<and>
         (c \<noteq> cryptENotFound \<longrightarrow> getError (Some st) = Some (Wrap (errCode c) msg))"
  using assms by (simp add: errors_Cause_def)

theorem getError_distinguishes_witness:
  "winStore_check (Some \<lparr>store = 1, prev = 0, err = Some (Wrap (errCode 5) ''CertFindCertificateInStore failed''), closed = False\<rparr>) = None
   \<and> getError (Some \<lparr>store = 1, prev = 0, err = Some (Wrap (errCode 5) ''CertFindCertificateInStore failed''), closed = False\<rparr>)
       = Some (Wrap (errCode 5) ''CertFindCertificateInStore failed'')
   \<and> getError (Some \<lparr>store = 1, prev = 0, err = Some (Wrap (errCode cryptENotFound) ''CertFindCertificateInStore failed''), closed = False\<rparr>) = None"
  using getError_distinguishes [of "\<lparr>store = 1, prev = 0, err = Some (Wrap (errCode 5) ''CertFindCertificateInStore failed''), closed = False\<rparr>" 5 "''CertFindCertificateInStore failed''"]
    getError_distinguishes [of "\<lparr>store = 1, prev = 0, err = Some (Wrap (errCode cryptENotFound) ''CertFindCertificateInStore failed''), closed = False\<rparr>" cryptENotFound "''CertFindCertificateInStore failed''"]
  by (simp add: winStore_check_def cryptENotFound_def)

text \<open>
  Claim C10. Once the error field of a store is set, \<open>nextCert\<close> returns nil
  at once, makes no native call (the world is unchanged) and leaves an error set; \<open>reset\<close>
  on an open store clears both the cursor and the error, and on a store whose check fails
  changes nothing.
\<close>

theorem sticky_error_until_reset:
  assumes "err st \<noteq> None"
  shows "(\<exists>st'. nextCert N w (Some st) = (Return 0, w, Some st') \<and> err st' \<noteq> None
            \<and> store st' = store st \<and> prev st' = prev st \<and> winStore.closed st' = winStore.closed st)
       \<and> (winStore_check (Some st) = None \<longrightarrow>
            (\<exists>w' st'. reset w (Some st) = (None, w', Some st') \<and> prev st' = 0 \<and> err st' = None))
       \<and> (winStore_check (Some st) \<noteq> None \<longrightarrow>
            (\<exists>e. reset w (Some st) = (Some e, w, Some st)))"
  using assms by (auto simp: Let_def split: option.splits)

theorem sticky_error_until_reset_witness:
  "err \<lparr>store = 7, prev = 0, err = Some (Wrap (errCode 5) ''CertFindCertificateInStore failed''),
        closed = False\<rparr> \<noteq> None
   \<and> nextCert example_native example_world
        (Some \<lparr>store = 7, prev = 0, err = Some (Wrap (errCode 5) ''CertFindCertificateInStore failed''),
               closed = False\<rparr>)
      = (Return 0, example_world,
         Some \<lparr>store = 7, prev = 0, err = Some (Wrap (errCode 5) ''CertFindCertificateInStore failed''),
               closed = False\<rparr>)
   \<and> reset example_world
        (Some \<lparr>store = 7, prev = 0, err = Some (Wrap (errCode 5) ''CertFindCertificateInStore failed''),
               closed = False\<rparr>)
      = (None, example_world, Some \<lparr>store = 7, prev = 0, err = None, closed = False\<rparr>)"
  using sticky_error_until_reset
          [of "\<lparr>store = 7, prev = 0, err = Some (Wrap (errCode 5) ''CertFindCertificateInStore failed''),
               closed = False\<rparr>" example_native example_world]
  by (simp add: winStore_check_def)


subsection \<open>Identities\<close>

lemma winIdentity_Close_keeps_identity:
  "snd (winIdentity_Close w i) = i"
  by (cases i) (auto simp: Let_def split: option.splits)

text \<open>
  Claim C2. Closing an identity sets its closed flag, so that a second
  \<open>Close\<close> frees nothing again and every accessor fails afterwards. The source never
  assigns the flag (the lemma above): the second \<open>Close\<close> of an open identity frees the
  key handle and the certificate context a second time, the check still passes, and
  \<open>GetSigner\<close> still returns the key.
\<close>

theorem winIdentity_Close_twice:
  "winIdentity_Close example_world (Some example_identity)
     = (\<lparr>trace = [NCryptFreeObject 11, CertFreeCertificateContext 1], last_error = 0\<rparr>,
        Some example_identity)
   \<and> winIdentity_Close \<lparr>trace = [NCryptFreeObject 11, CertFreeCertificateContext 1], last_error = 0\<rparr>
        (Some example_identity)
     = (\<lparr>trace = [NCryptFreeObject 11, CertFreeCertificateContext 1,
                  NCryptFreeObject 11, CertFreeCertificateContext 1], last_error = 0\<rparr>,
        Some example_identity)
   \<and> winIdentity_check (Some example_identity) = None
   \<and> fst (GetSigner example_native
            \<lparr>trace = [NCryptFreeObject 11, CertFreeCertificateContext 1], last_error = 0\<rparr>
            (Some example_identity)) = Inr example_cng_key"
  by (simp add: example_identity_def example_world_def example_cng_key_def winIdentity_check_def
      winPrivateKey_Close_def called_def GetSigner_def)

text \<open>
  Claim C9. Once \<open>GetSigner\<close> has succeeded on an identity, every later call
  on that identity, whatever the native subsystem would answer, returns the same key
  handle, makes no native call (the world is unchanged) and leaves the identity as it
  is.
\<close>

theorem getSigner_memoized:
  assumes "GetSigner N w (Some ident) = (Inr k, w1, i1)"
  shows "GetSigner N' w2 i1 = (Inr k, w2, i1)"
  using assms
  by (auto simp: GetSigner_def winIdentity_check_def split: option.splits sum.splits prod.splits if_splits)

theorem getSigner_memoized_witness:
  "GetSigner example_native example_world
      (Some \<lparr>winIdentity.ctx = 1, winIdentity.signer = None, closed = False\<rparr>)
     = (Inr example_cng_key,
        \<lparr>trace = [CryptFindCertificateKeyProvInfo 1, CryptAcquireCertificatePrivateKey 1],
          last_error = 0\<rparr>,
        Some example_identity)
   \<and> GetSigner example_native
        \<lparr>trace = [CryptFindCertificateKeyProvInfo 1, CryptAcquireCertificatePrivateKey 1],
          last_error = 0\<rparr>
        (Some example_identity)
     = (Inr example_cng_key,
        \<lparr>trace = [CryptFindCertificateKeyProvInfo 1, CryptAcquireCertificatePrivateKey 1],
          last_error = 0\<rparr>,
        Some example_identity)"
proof -
  have first: "GetSigner example_native example_world
      (Some \<lparr>winIdentity.ctx = 1, winIdentity.signer = None, closed = False\<rparr>)
     = (Inr example_cng_key,
        \<lparr>trace = [CryptFindCertificateKeyProvInfo 1, CryptAcquireCertificatePrivateKey 1],
          last_error = 0\<rparr>,
        Some example_identity)"
    by (simp add: GetSigner_def winIdentity_check_def newWinPrivateKey_def example_native_def
        example_world_def example_identity_def example_cng_key_def called_def Let_def)
  from getSigner_memoized [OF first] first show ?thesis
    by simp
qed


subsection \<open>Enumeration\<close>

lemma nextCert_open_more:
  assumes "winStore_check (Some st) = None" and "err st = None"
    and "prev st < yields N (store st)"
  shows "nextCert N w (Some st) =
           (Return (Suc (prev st)),
            called (CertFindCertificateInStore (store st) (prev st)) w,
            Some (st\<lparr>prev := Suc (prev st)\<rparr>))"
  using assms by (simp add: c_CertFindCertificateInStore_def Let_def)

lemma nextCert_open_end:
  assumes "winStore_check (Some st) = None" and "err st = None"
    and "\<not> prev st < yields N (store st)"
  shows "nextCert N w (Some st) =
           (Return 0,
            called GetLastError
              (failed (stop_code N (store st))
                 (called (CertFindCertificateInStore (store st) (prev st)) w)),
            Some (st\<lparr>prev := 0,
                     err := Some (Wrap (errCode (stop_code N (store st)))
                                   ''CertFindCertificateInStore failed'')\<rparr>))"
  using assms by (simp add: c_CertFindCertificateInStore_def Let_def lastError_def failed_def called_def)

lemma findIdentities_loop_open:
  assumes "winStore_check (Some st) = None" and "err st = None"
    and "prev st \<le> yields N (store st)"
  shows "findIdentities_loop N w (Some st) idents =
           (Return (idents @ map (\<lambda>k. \<lparr>winIdentity.ctx = k, winIdentity.signer = None, closed = False\<rparr>)
                               [Suc (prev st)..<Suc (yields N (store st))]),
            \<lparr>trace = trace w
                 @ concat (map (\<lambda>k. [CertFindCertificateInStore (store st) (k - 1),
                                      CertDuplicateCertificateContext k])
                             [Suc (prev st)..<Suc (yields N (store st))])
                 @ [CertFindCertificateInStore (store st) (yields N (store st)), GetLastError],
              last_error = stop_code N (store st)\<rparr>,
            Some (st\<lparr>prev := 0,
                     err := Some (Wrap (errCode (stop_code N (store st)))
                                   ''CertFindCertificateInStore failed'')\<rparr>))"
  using assms
proof (induction "yields N (store st) - prev st" arbitrary: st w idents)
  case 0
  then have e: "prev st = yields N (store st)" by simp
  then have "\<not> prev st < yields N (store st)" by simp
  from nextCert_open_end [OF "0.prems"(1,2) this, of w] e show ?case
    by (subst findIdentities_loop.simps [of N w "Some st" idents])
       (simp add: called_def failed_def del: nextCert.simps)
next
  case (Suc d)
  then have lt: "prev st < yields N (store st)" by simp
  let ?st = "st\<lparr>prev := Suc (prev st)\<rparr>"
  let ?w = "called (CertDuplicateCertificateContext (Suc (prev st)))
              (called (CertFindCertificateInStore (store st) (prev st)) w)"
  have c: "winStore_check (Some ?st) = None" "err ?st = None" "prev ?st \<le> yields N (store ?st)"
    using Suc.prems lt by (simp_all add: winStore_check_def split: if_splits)
  have d: "d = yields N (store ?st) - prev ?st"
    using Suc.hyps(2) by simp
  have step: "findIdentities_loop N w (Some st) idents =
      findIdentities_loop N ?w (Some ?st)
        (idents @ [\<lparr>winIdentity.ctx = Suc (prev st), winIdentity.signer = None, closed = False\<rparr>])"
    by (subst findIdentities_loop.simps [of N w "Some st" idents])
       (simp add: nextCert_open_more [OF Suc.prems(1,2) lt] newWinIdentity_def del: nextCert.simps)
  have u: "[Suc (prev st)..<Suc (yields N (store st))]
             = Suc (prev st) # [Suc (Suc (prev st))..<Suc (yields N (store st))]"
    using lt by (simp add: upt_conv_Cons)
  show ?case
    unfolding step Suc.hyps(1) [OF d c] u
    by (simp add: called_def)
qed

lemma close_idents_fresh:
  assumes "0 \<notin> set ks"
  shows "close_idents w (map (\<lambda>k. \<lparr>winIdentity.ctx = k, winIdentity.signer = None, closed = False\<rparr>) ks)
           = (w\<lparr>trace := trace w @ map CertFreeCertificateContext ks\<rparr>,
              map (\<lambda>k. \<lparr>winIdentity.ctx = k, winIdentity.signer = None, closed = False\<rparr>) ks)"
  using assms
  by (induction ks arbitrary: w) (auto simp: winIdentity_check_def called_def)

text \<open>
  Claim C7. When the personal store opens, \<open>FindIdentities\<close> wraps every
  entry the store yields. If the iteration ends with a code other than "not found", it
  returns an error and no list, and \<open>Close\<close> has run on every identity it made: each
  duplicated context is freed. On both paths the store is closed before the call returns:
  \<open>CertCloseStore\<close> is the last native call and the closed flag is set.
\<close>

theorem FindIdentities_cleanup:
  assumes "fst (r_CertOpenStore N) = h" and "h \<noteq> 0"
  shows "FindIdentities N w =
     ((if stop_code N h = cryptENotFound
       then Return (Inr (map (\<lambda>k. \<lparr>winIdentity.ctx = k, winIdentity.signer = None, closed = False\<rparr>)
                          [1..<Suc (yields N h)]))
       else Return (Inl (Wrap (Wrap (Wrap (errCode (stop_code N h))
                                       ''CertFindCertificateInStore failed'')
                                 ''identity iteration failed'')
                           ''findIdentities failed''))),
      \<lparr>trace = trace w @ [CertOpenStore]
          @ concat (map (\<lambda>k. [CertFindCertificateInStore h (k - 1),
                               CertDuplicateCertificateContext k])
                      [1..<Suc (yields N h)])
          @ [CertFindCertificateInStore h (yields N h), GetLastError]
          @ (if stop_code N h = cryptENotFound then []
             else map CertFreeCertificateContext [1..<Suc (yields N h)])
          @ [CertCloseStore h],
        last_error = stop_code N h\<rparr>,
      Some \<lparr>store = h, prev = 0,
            err = Some (Wrap (errCode (stop_code N h)) ''CertFindCertificateInStore failed''),
            closed = True\<rparr>)"
proof -
  let ?st = "\<lparr>store = h, prev = 0, err = None, closed = False\<rparr>"
  let ?w1 = "called CertOpenStore w"
  have op: "openMyCertStore N w = (Inr ?st, ?w1)"
    using assms by (simp add: openMyCertStore_def Let_def)
  have c: "winStore_check (Some ?st) = None" "err ?st = None" "prev ?st \<le> yields N (store ?st)"
    using assms by (simp_all add: winStore_check_def)
  note loop = findIdentities_loop_open [OF c, of ?w1 "[]"]
  have z: "0 \<notin> set [Suc 0..<Suc (yields N h)]"
    by simp
  note cl = close_idents_fresh [OF z]
  have fi: "findIdentities N ?w1 (Some ?st) =
     (if stop_code N h = cryptENotFound
      then (Return (Inr (map (\<lambda>k. \<lparr>winIdentity.ctx = k, winIdentity.signer = None, closed = False\<rparr>)
                          [1..<Suc (yields N h)])),
            \<lparr>trace = trace ?w1
               @ concat (map (\<lambda>k. [CertFindCertificateInStore h (k - 1),
                                    CertDuplicateCertificateContext k])
                           [1..<Suc (yields N h)])
               @ [CertFindCertificateInStore h (yields N h), GetLastError],
             last_error = stop_code N h\<rparr>,
            Some \<lparr>store = h, prev = 0,
                  err = Some (Wrap (errCode (stop_code N h)) ''CertFindCertificateInStore failed''),
                  closed = False\<rparr>)
      else (Return (Inl (Wrap (Wrap (errCode (stop_code N h)) ''CertFindCertificateInStore failed'')
                           ''identity iteration failed'')),
            \<lparr>trace = trace ?w1
               @ concat (map (\<lambda>k. [CertFindCertificateInStore h (k - 1),
                                    CertDuplicateCertificateContext k])
                           [1..<Suc (yields N h)])
               @ [CertFindCertificateInStore h (yields N h), GetLastError]
               @ map CertFreeCertificateContext [1..<Suc (yields N h)],
             last_error = stop_code N h\<rparr>,
            Some \<lparr>store = h, prev = 0,
                  err = Some (Wrap (errCode (stop_code N h)) ''CertFindCertificateInStore failed''),
                  closed = False\<rparr>))"
    unfolding findIdentities_def loop
    using assms(2) by (simp add: cl errors_Cause_def winStore_check_def del: upt_Suc)
  show ?thesis
    unfolding FindIdentities_def op
    using assms(2) by (simp add: fi winStore_check_def del: upt_Suc) (simp add: called_def)
qed

theorem FindIdentities_cleanup_witness:
  "fst (r_CertOpenStore failing_native) = 7 \<and> (7::nat) \<noteq> 0 \<and>
   FindIdentities failing_native example_world =
     (Return (Inl (Wrap (Wrap (Wrap (errCode 0x80070057) ''CertFindCertificateInStore failed'')
                           ''identity iteration failed'')
                     ''findIdentities failed'')),
      \<lparr>trace = [CertOpenStore,
                CertFindCertificateInStore 7 0, CertDuplicateCertificateContext 1,
                CertFindCertificateInStore 7 1, CertDuplicateCertificateContext 2,
                CertFindCertificateInStore 7 2, GetLastError,
                CertFreeCertificateContext 1, CertFreeCertificateContext 2,
                CertCloseStore 7],
        last_error = 0x80070057\<rparr>,
      Some \<lparr>store = 7, prev = 0,
            err = Some (Wrap (errCode 0x80070057) ''CertFindCertificateInStore failed''),
            closed = True\<rparr>)"
proof -
  have o: "fst (r_CertOpenStore failing_native) = 7"
    by (simp add: failing_native_def example_native_def)
  have n: "(7::nat) \<noteq> 0" by simp
  have y: "yields failing_native 7 = 2" and sc: "stop_code failing_native 7 = 0x80070057"
    by (simp_all add: failing_native_def example_native_def)
  have ne: "(0x80070057 :: DWORD) \<noteq> cryptENotFound"
    by (simp add: cryptENotFound_def)
  note t = FindIdentities_cleanup [OF o n, of example_world, unfolded y sc]
  from t ne o show ?thesis
    by (simp add: example_world_def upt_conv_Cons)
qed


subsection \<open>Signing\<close>

text \<open>
  Claim C4. For a hash with a size and a digest of any other length, both
  back ends (and \<open>Sign\<close> on a key with a back end) fail with the digest-size error and
  make no native call: the world is returned unchanged.
\<close>

theorem sign_digest_size_mismatch:
  assumes "Hash_Size hash = Some n" and "length digest \<noteq> n"
  shows "cngSignHash N w wpk hash digest = (Return (Inl (New ''bad digest for hash'')), w)
       \<and> capiSignHash N w wpk hash digest = (Return (Inl (New ''bad digest for hash'')), w)
       \<and> (capiProv wpk \<noteq> 0 \<or> cngHandle wpk \<noteq> 0 \<longrightarrow>
            Sign N w wpk digest hash = (Return (Inl (New ''bad digest for hash'')), w))"
  using assms by (simp add: cngSignHash_def capiSignHash_def Sign_def)

theorem sign_digest_size_mismatch_witness:
  "Hash_Size SHA256 = Some 32 \<and> length [0x01, 0x02 :: byte] \<noteq> 32
   \<and> cngSignHash example_native example_world example_cng_key SHA256 [0x01, 0x02]
        = (Return (Inl (New ''bad digest for hash'')), example_world)
   \<and> capiSignHash example_native example_world example_capi_key SHA256 [0x01, 0x02]
        = (Return (Inl (New ''bad digest for hash'')), example_world)
   \<and> Sign example_native example_world example_capi_key [0x01, 0x02] SHA256
        = (Return (Inl (New ''bad digest for hash'')), example_world)"
  using sign_digest_size_mismatch [of SHA256 32 "[0x01, 0x02]" example_native example_world example_cng_key]
    sign_digest_size_mismatch [of SHA256 32 "[0x01, 0x02]" example_native example_world example_capi_key]
  by (simp add: example_capi_key_def)

lemma reverse_from_pairs:
  "2 * k \<le> length xs \<Longrightarrow>
   reverse_from (int k - 1) xs =
     Return (map (\<lambda>j. if j < k \<or> length xs - k \<le> j then xs ! (length xs - 1 - j) else xs ! j)
               [0..<length xs])"
proof (induction k arbitrary: xs)
  case 0
  then show ?case
    by (simp add: reverse_from.simps) (rule nth_equalityI, auto)
next
  case (Suc k)
  let ?n = "length xs"
  let ?ys = "xs[k := xs ! (?n - 1 - k), ?n - 1 - k := xs ! k]"
  from Suc.prems have kn: "2 * Suc k \<le> ?n" .
  have opp: "nat (int ?n - 1 - int k) = ?n - 1 - k"
    using kn by linarith
  have step: "reverse_from (int (Suc k) - 1) xs = reverse_from (int k - 1) ?ys"
    using kn by (subst reverse_from.simps) (simp add: Let_def opp)
  have "2 * k \<le> length ?ys"
    using kn by simp
  from Suc.IH [OF this]
  have ih: "reverse_from (int k - 1) ?ys =
     Return (map (\<lambda>j. if j < k \<or> ?n - k \<le> j then ?ys ! (?n - 1 - j) else ?ys ! j) [0..<?n])"
    by simp
  have "map (\<lambda>j. if j < k \<or> ?n - k \<le> j then ?ys ! (?n - 1 - j) else ?ys ! j) [0..<?n]
      = map (\<lambda>j. if j < Suc k \<or> ?n - Suc k \<le> j then xs ! (?n - 1 - j) else xs ! j) [0..<?n]"
  proof (rule map_cong [OF refl])
    fix j assume "j \<in> set [0..<?n]"
    then have jn: "j < ?n" by simp
    show "(if j < k \<or> ?n - k \<le> j then ?ys ! (?n - 1 - j) else ?ys ! j)
        = (if j < Suc k \<or> ?n - Suc k \<le> j then xs ! (?n - 1 - j) else xs ! j)"
      using jn kn by (auto simp: nth_list_update)
  qed
  with step ih show ?case by simp
qed

lemma reverse_from_rev:
  "reverse_from (int (length xs) div 2 - 1) xs = Return (rev xs)"
proof -
  let ?n = "length xs"
  have "2 * (?n div 2) \<le> ?n" by simp
  from reverse_from_pairs [OF this]
  have "reverse_from (int (?n div 2) - 1) xs =
     Return (map (\<lambda>j. if j < ?n div 2 \<or> ?n - ?n div 2 \<le> j then xs ! (?n - 1 - j) else xs ! j) [0..<?n])" .
  moreover have "int (?n div 2) = int ?n div 2" by simp
  moreover have "map (\<lambda>j. if j < ?n div 2 \<or> ?n - ?n div 2 \<le> j then xs ! (?n - 1 - j) else xs ! j) [0..<?n]
     = rev xs"
  proof (rule nth_equalityI)
    show "length (map (\<lambda>j. if j < ?n div 2 \<or> ?n - ?n div 2 \<le> j then xs ! (?n - 1 - j) else xs ! j) [0..<?n]) = length (rev xs)"
      by simp
  next
    fix i assume "i < length (map (\<lambda>j. if j < ?n div 2 \<or> ?n - ?n div 2 \<le> j then xs ! (?n - 1 - j) else xs ! j) [0..<?n])"
    then have i: "i < ?n" by simp
    have "\<not> (i < ?n div 2 \<or> ?n - ?n div 2 \<le> i) \<Longrightarrow> ?n - 1 - i = i"
      using i by linarith
    then show "map (\<lambda>j. if j < ?n div 2 \<or> ?n - ?n div 2 \<le> j then xs ! (?n - 1 - j) else xs ! j) [0..<?n] ! i = rev xs ! i"
      using i by (auto simp: rev_nth Suc_diff_Suc) 
  qed
  ultimately show ?thesis by simp
qed

lemma length_filled: "length (filled n out) = n"
  by (simp add: filled_def)

text \<open>
  Claim C6. Whenever the legacy back end returns a signature, it is the reversal
  of the bytes the native \<open>CryptSignHash\<close> wrote into the buffer: element \<open>i\<close> of the
  result is element \<open>n - 1 - i\<close> of the native output of length \<open>n\<close>.
\<close>

theorem capiSignHash_reverses_native:
  assumes "capiSignHash N w wpk hash digest = (Return (Inr result), w')"
  shows "\<exists>hash_alg chash code sigLen code3 out code4.
           capi_hash_alg hash = Some hash_alg
         \<and> r_CryptCreateHash N (capiProv wpk) hash_alg = (True, chash, code)
         \<and> r_CryptSignHash_len N chash (keySpec wpk) = (True, sigLen, code3)
         \<and> r_CryptSignHash N chash (keySpec wpk) sigLen = (True, out, code4)
         \<and> result = rev (filled (unat sigLen) out)
         \<and> length result = unat sigLen
         \<and> (\<forall>i < unat sigLen. result ! i = filled (unat sigLen) out ! (unat sigLen - 1 - i))"
proof -
  from assms obtain n hash_alg where
    alg: "capi_hash_alg hash = Some hash_alg" and n: "Hash_Size hash = Some n"
    by (auto simp: capiSignHash_def split: option.splits if_splits)
  obtain ok chash code where cr: "r_CryptCreateHash N (capiProv wpk) hash_alg = (ok, chash, code)"
    by (cases "r_CryptCreateHash N (capiProv wpk) hash_alg") auto
  from assms alg n cr have ok: "ok"
    by (auto simp: capiSignHash_def Let_def lastError_def split: if_splits)
  from assms alg n cr ok obtain w2 where
    body: "capiSignHash_hashed N (called (CryptCreateHash (capiProv wpk)) w) wpk n digest chash
             = (Return (Inr result), w2)"
    by (auto simp: capiSignHash_def Let_def split: if_splits prod.splits)
  obtain ok3 sigLen code3 where l: "r_CryptSignHash_len N chash (keySpec wpk) = (ok3, sigLen, code3)"
    by (cases "r_CryptSignHash_len N chash (keySpec wpk)") auto
  obtain ok4 out code4 where s: "r_CryptSignHash N chash (keySpec wpk) sigLen = (ok4, out, code4)"
    by (cases "r_CryptSignHash N chash (keySpec wpk) sigLen") auto
  from body l s have res: "ok3 \<and> ok4 \<and> result = rev (filled (unat sigLen) out)"
    by (auto simp: capiSignHash_hashed_def Let_def lastError_def reverse_from_rev
        split: if_splits prod.splits outcome.splits)
  then have "\<forall>i < unat sigLen. result ! i = filled (unat sigLen) out ! (unat sigLen - 1 - i)"
    by (auto simp: rev_nth length_filled)
  with alg cr ok l s res show ?thesis
    by (auto simp: length_filled)
qed

lemma capi_run:
  "capiSignHash example_native example_world example_capi_key SHA1 (replicate 20 0xAB)
     = (Return (Inr [3, 2, 1]),
        \<lparr>trace = [CryptCreateHash 11, CryptGetHashParam 12, CryptSetHashParam 12,
                  CryptSignHash 12, CryptSignHash 12, CryptDestroyHash 12], last_error = 0\<rparr>)"
  by (simp add: capiSignHash_def capiSignHash_hashed_def capi_hash_alg_def example_native_def
      example_world_def example_capi_key_def called_def Let_def filled_def reverse_from.simps
      CALG_SHA1_def)

theorem capiSignHash_reverses_native_witness:
  "fst (capiSignHash example_native example_world example_capi_key SHA1 (replicate 20 0xAB))
     = Return (Inr [3, 2, 1])
   \<and> [3, 2, 1] = rev (filled 3 [1, 2, 3 :: byte])"
proof -
  from capiSignHash_reverses_native [OF capi_run]
  have "[3, 2, 1] = rev (filled 3 [1, 2, 3 :: byte])"
    by (auto simp: example_native_def example_capi_key_def)
  with capi_run show ?thesis by simp
qed


lemma foldl_SetBytes: "foldl (\<lambda>a b. 256 * a + unat (b::byte)) a xs = a * 256 ^ length xs + foldl (\<lambda>a b. 256 * a + unat b) 0 xs"
proof (induction xs arbitrary: a)
  case Nil
  then show ?case by simp
next
  case (Cons x xs)
  have "foldl (\<lambda>a b. 256 * a + unat (b::byte)) (256 * a + unat x) xs
          = (256 * a + unat x) * 256 ^ length xs + foldl (\<lambda>a b. 256 * a + unat b) 0 xs"
    by (rule Cons.IH)
  moreover have "foldl (\<lambda>a b. 256 * a + unat (b::byte)) (256 * 0 + unat x) xs
          = (256 * 0 + unat x) * 256 ^ length xs + foldl (\<lambda>a b. 256 * a + unat b) 0 xs"
    by (rule Cons.IH)
  ultimately show ?case
    by (simp add: algebra_simps)
qed

lemma SetBytes_Nil [simp]: "SetBytes [] = 0"
  by (simp add: SetBytes_def)

lemma SetBytes_Cons: "SetBytes (b # bs) = unat b * 256 ^ length bs + SetBytes bs"
  using foldl_SetBytes [of "unat b" bs] by (simp add: SetBytes_def)

lemma SetBytes_append: "SetBytes (xs @ ys) = SetBytes xs * 256 ^ length ys + SetBytes ys"
  by (induction xs) (simp_all add: SetBytes_Cons algebra_simps power_add)

lemma SetBytes_lt: "SetBytes xs < 256 ^ length xs"
proof (induction xs)
  case Nil
  then show ?case by simp
next
  case (Cons b bs)
  have "unat b < 256" using unsigned_less [of b] by simp
  then have "(unat b + 1) * 256 ^ length bs \<le> 256 * 256 ^ length bs"
    by (intro mult_le_mono1) simp
  moreover have "unat b * 256 ^ length bs + SetBytes bs < (unat b + 1) * 256 ^ length bs"
    using Cons.IH by simp
  ultimately have "unat b * 256 ^ length bs + SetBytes bs < 256 * 256 ^ length bs"
    by (rule order.strict_trans2 [rotated])
  then show ?case by (simp add: SetBytes_Cons)
qed

lemma SetBytes_Bytes: "SetBytes (Bytes n) = n"
proof (induction n rule: Bytes.induct)
  case (1 n)
  show ?case
  proof (cases "n = 0")
    case True
    then show ?thesis by (simp add: Bytes.simps)
  next
    case False
    have "unat (of_nat (n mod 256) :: byte) = n mod 256"
      by (simp add: unat_of_nat)
    with False "1.IH" show ?thesis
      by (subst Bytes.simps) (simp add: SetBytes_append SetBytes_Cons)
  qed
qed

lemma Bytes_eq_Nil: "Bytes n = [] \<longleftrightarrow> n = 0"
  by (subst Bytes.simps) simp

lemma length_Bytes_ge: "256 ^ k \<le> n \<Longrightarrow> k < length (Bytes n)"
proof (rule ccontr)
  assume a: "256 ^ k \<le> n" and "\<not> k < length (Bytes n)"
  then have "length (Bytes n) \<le> k" by simp
  then have "(256::nat) ^ length (Bytes n) \<le> 256 ^ k"
    by (simp add: power_increasing)
  with SetBytes_lt [of "Bytes n"] a show False
    by (simp add: SetBytes_Bytes)
qed

lemma SetBytes_makeBigInt: "SetBytes (makeBigInt n) = n"
  by (simp add: makeBigInt_def Let_def SetBytes_Cons SetBytes_Bytes)

lemma makeBigInt_not_Nil: "makeBigInt n \<noteq> []"
  by (simp add: makeBigInt_def Let_def Bytes_eq_Nil)

lemma makeBigInt_nonneg: "hd (makeBigInt n) AND 0x80 = 0"
  by (simp add: makeBigInt_def Let_def Bytes_eq_Nil)

lemma length_makeBigInt_ge: "length (Bytes n) \<le> length (makeBigInt n)"
  by (simp add: makeBigInt_def Let_def Bytes.simps [of 0])

lemma lt_pow_lengthLength: "n < 256 ^ lengthLength n"
proof (induction n rule: lengthLength.induct)
  case (1 i)
  show ?case
  proof (cases "i > 255")
    case True
    from "1.IH" [OF True] have "i div 256 < 256 ^ lengthLength (i div 256)" .
    then have "i < 256 * 256 ^ lengthLength (i div 256)"
      by (simp add: less_mult_imp_div_less mult.commute)
    with True show ?thesis
      by (subst lengthLength.simps) simp
  next
    case False
    then show ?thesis
      by (subst lengthLength.simps) simp
  qed
qed

lemma lengthLength_le: "0 < m \<Longrightarrow> n < 256 ^ m \<Longrightarrow> lengthLength n \<le> m"
proof (induction n arbitrary: m rule: lengthLength.induct)
  case (1 i)
  show ?case
  proof (cases "i > 255")
    case True
    from "1.prems" obtain m' where m1: "m = Suc m'"
      by (cases m) auto
    have "m' \<noteq> 0"
    proof
      assume "m' = 0"
      with "1.prems" m1 True show False by simp
    qed
    with m1 have m': "m = Suc m'" "0 < m'"
      by simp_all
    from "1.prems" m' have "i div 256 < 256 ^ m'"
      by (simp add: less_mult_imp_div_less mult.commute)
    from "1.IH" [OF True m'(2) this] m' True show ?thesis
      by (subst lengthLength.simps) simp
  next
    case False
    with "1.prems" show ?thesis
      by (subst lengthLength.simps) simp
  qed
qed

lemma length_appendLength [simp]: "length (appendLength n i) = n"
  by (induction n) simp_all

lemma SetBytes_appendLength: "SetBytes (appendLength n i) = i mod 256 ^ n"
proof (induction n)
  case 0
  then show ?case by simp
next
  case (Suc n)
  have "unat (of_nat (i div 256 ^ n) :: byte) = (i div 256 ^ n) mod 256"
    by (simp add: unat_of_nat)
  moreover have "i mod 256 ^ Suc n = 256 ^ n * (i div 256 ^ n mod 256) + i mod 256 ^ n"
    using mod_mult2_eq [of i "256 ^ n" 256] by (simp add: mult.commute)
  ultimately show ?case
    using Suc by (simp add: SetBytes_Cons mult.commute del: power_Suc)
qed

lemma length_octet_bits: "\<forall>l \<in> {0..<128::nat}. unat ((0x80 OR of_nat l :: byte) AND 0x7F) = l \<and> \<not> ((0x80 OR of_nat l :: byte) < 0x80)"
  by code_simp

lemma short_length_octet: "len < 128 \<Longrightarrow> (of_nat len :: byte) < 0x80"
  by (simp add: word_less_nat_alt unat_of_nat)

lemma unat_short_length_octet: "len < 128 \<Longrightarrow> unat (of_nat len :: byte) = len"
  by (simp add: unat_of_nat)

lemma lengthLength_pos: "0 < lengthLength n"
  by (subst lengthLength.simps) simp

lemma spec_decode_length_appendTagAndLength:
  assumes "lengthLength len < 128"
  shows "spec_decode_length (tl (appendTagAndLength t len) @ rest) = Some (len, rest)"
proof (cases "len \<ge> 128")
  case False
  then show ?thesis
    by (simp add: appendTagAndLength_def short_length_octet unat_short_length_octet)
next
  case True
  let ?l = "lengthLength len"
  from length_octet_bits assms have b: "unat ((0x80 OR of_nat ?l :: byte) AND 0x7F) = ?l"
    "\<not> ((0x80 OR of_nat ?l :: byte) < 0x80)"
    by auto
  have "SetBytes (appendLength ?l len) = len"
    using lt_pow_lengthLength [of len] by (simp add: SetBytes_appendLength)
  with True b lengthLength_pos [of len] show ?thesis
    by (simp add: appendTagAndLength_def)
qed

lemma spec_decode_element_appendTagAndLength:
  assumes "lengthLength (length c) < 128"
  shows "spec_decode_element t (appendTagAndLength t (length c) @ c @ rest) = Some (c, rest)"
proof -
  have "appendTagAndLength t (length c) = t # tl (appendTagAndLength t (length c))"
    by (simp add: appendTagAndLength_def)
  then have "spec_decode_element t (appendTagAndLength t (length c) @ c @ rest)
     = spec_decode_element t (t # (tl (appendTagAndLength t (length c)) @ (c @ rest)))"
    by (metis append_Cons)
  also have "\<dots> = Some (c, rest)"
    by (simp add: spec_decode_element_def
        spec_decode_length_appendTagAndLength [OF assms])
  finally show ?thesis .
qed

lemma length_Bytes_le: "n < 256 ^ k \<Longrightarrow> length (Bytes n) \<le> k"
proof (induction n arbitrary: k rule: Bytes.induct)
  case (1 n)
  show ?case
  proof (cases "n = 0")
    case True
    then show ?thesis by (simp add: Bytes.simps)
  next
    case False
    with "1.prems" obtain k' where k: "k = Suc k'"
      by (cases k) auto
    with "1.prems" have "n div 256 < 256 ^ k'"
      by (simp add: less_mult_imp_div_less mult.commute)
    from "1.IH" [OF False this] False k show ?thesis
      by (subst Bytes.simps) simp
  qed
qed

lemma length_makeBigInt_le: "length (makeBigInt (SetBytes xs)) \<le> Suc (length xs)"
proof -
  have "length (Bytes (SetBytes xs)) \<le> length xs"
    by (rule length_Bytes_le [OF SetBytes_lt])
  then show ?thesis
    by (simp add: makeBigInt_def Let_def)
qed

lemma lengthLength_small: "n < 2 ^ 40 \<Longrightarrow> lengthLength n < 128"
proof -
  assume "n < 2 ^ 40"
  then have "n < 256 ^ 5" by simp
  from lengthLength_le [OF _ this] show ?thesis by simp
qed

lemma length_appendTagAndLength_le: "length (appendTagAndLength t n) \<le> 2 + lengthLength n"
  by (simp add: appendTagAndLength_def)

lemma length_marshalInteger_le:
  assumes "length (makeBigInt n) < 2 ^ 33"
  shows "length (marshalInteger n) < 2 ^ 34"
proof -
  from assms have "lengthLength (length (makeBigInt n)) < 128"
    by (intro lengthLength_small) simp
  with length_appendTagAndLength_le [of 2 "length (makeBigInt n)"] assms
  show ?thesis
    by (simp add: marshalInteger_def)
qed

lemma decode_marshal:
  assumes r: "length (makeBigInt r) < 2 ^ 33" and s: "length (makeBigInt s) < 2 ^ 33"
    and m: "asn1_Marshal_ecdsaSignature r s = Inr encoded"
  shows "spec_decode_ecdsaSignature encoded = Some (r, s)"
proof -
  let ?R = "makeBigInt r" and ?S = "makeBigInt s"
  let ?body = "marshalInteger r @ marshalInteger s"
  have lr: "lengthLength (length ?R) < 128" and ls: "lengthLength (length ?S) < 128"
    using r s by (auto intro!: lengthLength_small)
  have "length ?body < 2 ^ 35"
    using length_marshalInteger_le [OF r] length_marshalInteger_le [OF s] by simp
  then have lb: "lengthLength (length ?body) < 128"
    by (intro lengthLength_small) simp
  have e: "encoded = appendTagAndLength 0x30 (length ?body) @ ?body @ []"
    using m by (simp add: asn1_Marshal_ecdsaSignature_def Let_def)
  have 1: "spec_decode_element 0x30 encoded = Some (?body, [])"
    unfolding e by (rule spec_decode_element_appendTagAndLength [OF lb])
  have "?body = appendTagAndLength 0x02 (length ?R) @ ?R @ marshalInteger s"
    by (simp add: marshalInteger_def)
  then have 2: "spec_decode_element 0x02 ?body = Some (?R, marshalInteger s)"
    using spec_decode_element_appendTagAndLength [OF lr, of 2 "marshalInteger s"] by simp
  have "marshalInteger s = appendTagAndLength 0x02 (length ?S) @ ?S @ []"
    by (simp add: marshalInteger_def)
  then have 3: "spec_decode_element 0x02 (marshalInteger s) = Some (?S, [])"
    using spec_decode_element_appendTagAndLength [OF ls, of 2 "[]"] by simp
  have 4: "spec_decode_integer ?R = Some r" "spec_decode_integer ?S = Some s"
    by (simp_all add: spec_decode_integer_def makeBigInt_not_Nil makeBigInt_nonneg SetBytes_makeBigInt)
  show ?thesis
    by (simp add: spec_decode_ecdsaSignature_def 1 2 3 4)
qed

lemma SetBytes_ge_hd:
  assumes "xs \<noteq> []" and "hd xs \<noteq> 0"
  shows "256 ^ (length xs - 1) \<le> SetBytes xs"
proof -
  from assms obtain b bs where xs: "xs = b # bs" and b: "b \<noteq> 0"
    by (cases xs) auto
  from b have "unat b \<noteq> 0"
    by (simp add: unsigned_eq_0_iff)
  then have "1 \<le> unat b"
    by simp
  then have "256 ^ length bs \<le> unat b * 256 ^ length bs"
    by simp
  then have "256 ^ length bs \<le> unat b * 256 ^ length bs + SetBytes bs"
    by (rule trans_le_add1)
  then show ?thesis
    by (simp add: xs SetBytes_Cons)
qed

lemma marshal_differs_from_raw:
  assumes k: "0 < k" "k \<le> length sig"
    and m: "asn1_Marshal_ecdsaSignature (SetBytes (take k sig)) (SetBytes (drop k sig)) = Inr encoded"
  shows "encoded \<noteq> sig"
proof
  assume eq: "encoded = sig"
  let ?r = "SetBytes (take k sig)" and ?s = "SetBytes (drop k sig)"
  let ?R = "makeBigInt ?r" and ?S = "makeBigInt ?s"
  let ?body = "marshalInteger ?r @ marshalInteger ?s"
  let ?H = "appendTagAndLength 0x30 (length ?body) @ appendTagAndLength 0x02 (length ?R)"
  obtain B where t: "appendTagAndLength 0x02 (length ?S) = 0x02 # B"
    by (simp add: appendTagAndLength_def)
  have e: "encoded = (?H @ ?R) @ [0x02] @ B @ ?S"
    using m t by (simp add: asn1_Marshal_ecdsaSignature_def Let_def marshalInteger_def)
  have "hd encoded = 0x30"
    using m by (auto simp: asn1_Marshal_ecdsaSignature_def Let_def appendTagAndLength_def)
  with eq k have h: "take k sig \<noteq> []" "hd (take k sig) \<noteq> 0"
    by (cases sig; cases k; simp)+
  have lk: "length (take k sig) = k"
    using k by simp
  from SetBytes_ge_hd [OF h] have "256 ^ (k - 1) \<le> ?r"
    unfolding lk .
  from length_Bytes_ge [OF this] k have "k \<le> length (Bytes ?r)"
    by simp
  with length_makeBigInt_ge [of ?r] have "k \<le> length (?H @ ?R)"
    by simp
  then have d: "drop k encoded = (drop k (?H @ ?R) @ [0x02]) @ B @ ?S"
    unfolding e by simp
  define X where "X = SetBytes (drop k (?H @ ?R) @ [0x02])"
  define P where "P = (256::nat) ^ length (B @ ?S)"
  define Y where "Y = SetBytes (B @ ?S)"
  have a: "SetBytes (drop k encoded) = X * P + Y"
    unfolding d X_def P_def Y_def by (rule SetBytes_append)
  have "2 \<le> X"
    unfolding X_def by (simp add: SetBytes_append SetBytes_Cons)
  then have "2 * P \<le> X * P"
    by (rule mult_le_mono1)
  then have "2 * P \<le> X * P + Y"
    by (rule trans_le_add1)
  moreover have "0 < P"
    unfolding P_def by simp
  ultimately have "P < X * P + Y"
    by linarith
  then have b: "P < SetBytes (drop k encoded)"
    unfolding a .
  have "(256::nat) ^ length ?S \<le> P"
    unfolding P_def by (simp add: power_increasing)
  moreover have "SetBytes ?S < 256 ^ length ?S"
    by (rule SetBytes_lt)
  ultimately have "SetBytes ?S < SetBytes (drop k encoded)"
    using b by linarith
  then show False
    by (simp add: eq SetBytes_makeBigInt)
qed

lemma Hash_Size_pos: "Hash_Size h = Some n \<Longrightarrow> 0 < n"
  by (cases h) auto

lemma cngSignHash_ecdsa_run:
  assumes key: "publicKey wpk = Some ECDSAPublicKey"
    and size: "Hash_Size hash = Some (length digest)"
    and len: "r_NCryptSignHash_len N (cngHandle wpk) None digest 0 = (0, sigLen)"
    and nz: "sigLen \<noteq> 0"
    and sign: "r_NCryptSignHash N (cngHandle wpk) None digest sigLen 0 = (0, out)"
  shows "cngSignHash N w wpk hash digest =
           (Return (cng_encode wpk (filled (unat sigLen) out)),
            called (NCryptSignHash (cngHandle wpk)) (called (NCryptSignHash (cngHandle wpk)) w))"
proof -
  from Hash_Size_pos [OF size] have d: "digest \<noteq> []" by auto
  have p: "cng_padding wpk hash = Inr (None, 0)"
    using key by (simp add: cng_padding_def)
  show ?thesis
    using size d nz by (simp add: cngSignHash_def p len sign checkStatus_def Let_def)
qed

text \<open>
  Claim C5. A modern-back-end signature with an elliptic-curve key, where both native calls
  succeed and \<open>sig\<close> is the buffer the native primitive filled: if \<open>sig\<close> has odd
  length the call fails with the bad-signature error; otherwise it returns what
  \<open>asn1.Marshal\<close> makes of the pair \<open>(r, s)\<close>, \<open>r\<close> the big-endian value of the
  first half and \<open>s\<close> of the second half. That value reads back as the two-integer
  record \<open>(r, s)\<close>, and it is never the raw bytes \<open>sig\<close>.
\<close>

theorem cngSignHash_ecdsa_encoding:
  assumes key: "publicKey wpk = Some ECDSAPublicKey"
    and size: "Hash_Size hash = Some (length digest)"
    and len: "r_NCryptSignHash_len N (cngHandle wpk) None digest 0 = (0, sigLen)"
    and nz: "sigLen \<noteq> 0"
    and sign: "r_NCryptSignHash N (cngHandle wpk) None digest sigLen 0 = (0, out)"
    and sig: "sig = filled (unat sigLen) out"
  shows "(odd (length sig) \<longrightarrow>
            fst (cngSignHash N w wpk hash digest) = Return (Inl (New ''bad ecdsa signature from CNG'')))
       \<and> (even (length sig) \<longrightarrow>
            (\<exists>encoded.
               fst (cngSignHash N w wpk hash digest) = Return (Inr encoded)
             \<and> asn1_Marshal_ecdsaSignature (SetBytes (take (length sig div 2) sig))
                  (SetBytes (drop (length sig div 2) sig)) = Inr encoded
             \<and> spec_decode_ecdsaSignature encoded
                  = Some (SetBytes (take (length sig div 2) sig), SetBytes (drop (length sig div 2) sig))
             \<and> encoded \<noteq> sig))"
proof -
  note run = cngSignHash_ecdsa_run [OF key size len nz sign, of w, folded sig]
  let ?k = "length sig div 2"
  let ?r = "SetBytes (take ?k sig)" and ?s = "SetBytes (drop ?k sig)"
  have n: "length sig = unat sigLen"
    by (simp add: sig length_filled)
  have odd_case: "odd (length sig) \<longrightarrow>
      fst (cngSignHash N w wpk hash digest) = Return (Inl (New ''bad ecdsa signature from CNG''))"
    by (simp add: run cng_encode_def key odd_iff_mod_2_eq_one)
  have even_case: "\<exists>encoded.
               fst (cngSignHash N w wpk hash digest) = Return (Inr encoded)
             \<and> asn1_Marshal_ecdsaSignature ?r ?s = Inr encoded
             \<and> spec_decode_ecdsaSignature encoded = Some (?r, ?s)
             \<and> encoded \<noteq> sig" if ev: "even (length sig)"
  proof -
    obtain encoded where m: "asn1_Marshal_ecdsaSignature ?r ?s = Inr encoded"
      by (simp add: asn1_Marshal_ecdsaSignature_def Let_def)
    have res: "fst (cngSignHash N w wpk hash digest) = Return (Inr encoded)"
      using ev by (simp add: run cng_encode_def key m even_iff_mod_2_eq_zero)
    have "unat sigLen < 2 ^ 32"
      using unsigned_less [of sigLen] by simp
    with n have bound: "length sig < 2 ^ 32" by simp
    have "length (makeBigInt ?r) \<le> Suc (length (take ?k sig))"
      by (rule length_makeBigInt_le)
    with bound have br: "length (makeBigInt ?r) < 2 ^ 33" by simp
    have "length (makeBigInt ?s) \<le> Suc (length (drop ?k sig))"
      by (rule length_makeBigInt_le)
    with bound have bs: "length (makeBigInt ?s) < 2 ^ 33" by simp
    have dec: "spec_decode_ecdsaSignature encoded = Some (?r, ?s)"
      by (rule decode_marshal [OF br bs m])
    have "length sig \<noteq> 0"
      using nz n by (simp add: unsigned_eq_0_iff)
    from ev obtain b where b: "length sig = 2 * b"
      by (auto elim: evenE)
    with \<open>length sig \<noteq> 0\<close> have "0 < b"
      by (cases b) simp_all
    with b have k: "0 < ?k" "?k \<le> length sig"
      by simp_all
    have "encoded \<noteq> sig"
      by (rule marshal_differs_from_raw [OF k m])
    with res m dec show ?thesis by blast
  qed
  from odd_case even_case show ?thesis by blast
qed

lemma cng_run:
  "fst (cngSignHash example_native example_world example_cng_key SHA256 (replicate 32 0xAB))
     = Return (Inr [0x30, 0x09, 0x02, 0x02, 0x01, 0x02, 0x02, 0x03, 0x00, 0x80, 0x04])"
  by (simp add: cngSignHash_def cng_padding_def cng_encode_def example_native_def example_world_def
      example_cng_key_def checkStatus_def filled_def SetBytes_def asn1_Marshal_ecdsaSignature_def
      marshalInteger_def makeBigInt_def appendTagAndLength_def Bytes.simps Let_def called_def)

theorem cngSignHash_ecdsa_encoding_witness:
  "fst (cngSignHash example_native example_world example_cng_key SHA256 (replicate 32 0xAB))
     = Return (Inr [0x30, 0x09, 0x02, 0x02, 0x01, 0x02, 0x02, 0x03, 0x00, 0x80, 0x04])
   \<and> spec_decode_ecdsaSignature [0x30, 0x09, 0x02, 0x02, 0x01, 0x02, 0x02, 0x03, 0x00, 0x80, 0x04]
       = Some (SetBytes [0x01, 0x02], SetBytes [0x80, 0x04])
   \<and> [0x30, 0x09, 0x02, 0x02, 0x01, 0x02, 0x02, 0x03, 0x00, 0x80, 0x04] \<noteq> [0x01, 0x02, 0x80, 0x04 :: byte]"
proof -
  have key: "publicKey example_cng_key = Some ECDSAPublicKey"
    by (simp add: example_cng_key_def)
  have size: "Hash_Size SHA256 = Some (length (replicate 32 (0xAB :: byte)))"
    by simp
  have len: "r_NCryptSignHash_len example_native (cngHandle example_cng_key) None
               (replicate 32 0xAB) 0 = (0, 4)"
    by (simp add: example_native_def)
  have nz: "(4 :: DWORD) \<noteq> 0" by simp
  have sign: "r_NCryptSignHash example_native (cngHandle example_cng_key) None
               (replicate 32 0xAB) 4 0 = (0, [0x01, 0x02, 0x80, 0x04])"
    by (simp add: example_native_def)
  have sig: "[0x01, 0x02, 0x80, 0x04 :: byte] = filled (unat (4 :: DWORD)) [0x01, 0x02, 0x80, 0x04]"
    by (simp add: filled_def)
  have ev: "even (length [0x01, 0x02, 0x80, 0x04 :: byte])"
    by simp
  from cngSignHash_ecdsa_encoding [OF key size len nz sign sig, of example_world] ev
  obtain encoded where
    e: "fst (cngSignHash example_native example_world example_cng_key SHA256 (replicate 32 0xAB))
          = Return (Inr encoded)"
      "spec_decode_ecdsaSignature encoded
          = Some (SetBytes (take (length [0x01, 0x02, 0x80, 0x04 :: byte] div 2) [0x01, 0x02, 0x80, 0x04]),
                  SetBytes (drop (length [0x01, 0x02, 0x80, 0x04 :: byte] div 2) [0x01, 0x02, 0x80, 0x04]))"
      "encoded \<noteq> [0x01, 0x02, 0x80, 0x04]"
    by blast
  from e(1) cng_run have "encoded = [0x30, 0x09, 0x02, 0x02, 0x01, 0x02, 0x02, 0x03, 0x00, 0x80, 0x04]"
    by simp
  with e cng_run show ?thesis
    by simp
qed

subsection \<open>The PKCS\#11 store\<close>

lemma Identities_lookup_failure:
  "FindCertificate (linuxStore.ctx st) 0x04024FFB1E82B2A48FD1BA7B393DD897 = Inl e \<Longrightarrow> Identities st = Panic"
  by (simp add: Identities_def)

text \<open>
  Claim C3. Every failure is returned to the caller as an error value and no
  operation aborts the process. \<open>Identities\<close> of the PKCS\#11 store does abort: when the
  certificate lookup fails it panics with the error instead of returning it.
\<close>

theorem Identities_panics:
  "Identities \<lparr>linuxStore.ctx = failing_token\<rparr> = Panic"
  by (simp add: Identities_def failing_token_def)

end
